theory Spec2Isabelle
  imports Complex_Main
begin

section \<open>Python values, exceptions and strings\<close>

text \<open>
  The repository is four Python files: \<open>src/config/logger_config.py\<close>,
  \<open>src/indexing/create_index.py\<close>, \<open>src/ingesting/ingest.py\<close> and
  \<open>src/query/query.py\<close>. Strings are byte lists; the few non-ASCII literals of
  the source are written as their UTF-8 bytes.
\<close>

datatype pyval = PNone | PStr string

text \<open>Python truthiness (\<open>if v:\<close>, \<open>not v\<close>, \<open>a or b\<close>) of an optional string.\<close>

fun truthy :: "pyval \<Rightarrow> bool" where
  "truthy PNone = False"
| "truthy (PStr s) = (s \<noteq> [])"

text \<open>\<open>a or b\<close>\<close>

definition py_or :: "pyval \<Rightarrow> pyval \<Rightarrow> pyval" where
  "py_or a b = (if truthy a then a else b)"

text \<open>What an f-string placeholder \<open>{v}\<close> renders.\<close>

fun fmt :: "pyval \<Rightarrow> string" where
  "fmt PNone = ''None''"
| "fmt (PStr s) = s"

text \<open>
  An exception object (any subclass of \<open>Exception\<close>): its class name and what
  \<open>str(e)\<close> gives.
\<close>

datatype exn = Exn (exn_type: string) (exn_str: string)

definition ValueError :: "string \<Rightarrow> exn" where
  "ValueError msg = Exn ''ValueError'' msg"

definition IndexError :: exn where
  "IndexError = Exn ''IndexError'' ''list index out of range''"

text \<open>\<open>xs[0]\<close>\<close>

definition index0 :: "'a list \<Rightarrow> exn + 'a" where
  "index0 xs = (case xs of [] \<Rightarrow> Inl IndexError | x # _ \<Rightarrow> Inr x)"

text \<open>\<open>sep.join(xs)\<close>\<close>

fun join :: "string \<Rightarrow> string list \<Rightarrow> string" where
  "join sep [] = []"
| "join sep [x] = x"
| "join sep (x # y # ys) = x @ sep @ join sep (y # ys)"

text \<open>Decimal rendering of an integer, as \<open>{n}\<close> in an f-string.\<close>

definition digit :: "nat \<Rightarrow> char" where
  "digit d = ''0123456789'' ! d"

function str_nat :: "nat \<Rightarrow> string" where
  "str_nat n = (if n < 10 then [digit n] else str_nat (n div 10) @ [digit (n mod 10)])"
  by pat_completeness auto
termination
  by (relation "measure id") auto

declare str_nat.simps [simp del]

definition str_int :: "int \<Rightarrow> string" where
  "str_int i = (if i < 0 then CHR ''-'' # str_nat (nat (- i)) else str_nat (nat i))"

section \<open>logger_config.py\<close>

text \<open>
  The module defines \<open>setup_logger\<close> and \<open>install_global_exception_hook\<close>; on
  import it also creates the directory \<open>LOG_DIR\<close> and raises the level of the two
  \<open>azure\<close> loggers, which no function below depends on.
\<close>

text \<open>The numeric levels of Python's \<open>logging\<close> module.\<close>

definition NOTSET :: int where "NOTSET = 0"
definition DEBUG :: int where "DEBUG = 10"
definition INFO :: int where "INFO = 20"
definition WARNING :: int where "WARNING = 30"
definition ERROR :: int where "ERROR = 40"
definition CRITICAL :: int where "CRITICAL = 50"

datatype handler_kind =
    RotatingFileHandler (filename: string) (maxBytes: nat) (backupCount: nat) (encoding: string)
  | StreamHandler (stream: string)

record handler =
  h_kind :: handler_kind
  h_fmt :: string
  h_datefmt :: "string option"
  h_level :: int
  h_filters :: "string list"

record logger =
  lg_level :: int
  lg_propagate :: bool
  lg_handlers :: "handler list"

text \<open>
  The state of the \<open>logging\<close> module and of what \<open>logger_config\<close> reads from its
  surroundings: the registry of named loggers, the \<open>captureWarnings\<close> flag, the module
  constant \<open>LOG_DIR\<close> and \<open>sys.stdout.encoding\<close> (\<open>None\<close> when the attribute is
  missing or unset).
\<close>

record log_state =
  loggers :: "string \<rightharpoonup> logger"
  capture_warnings :: bool
  LOG_DIR :: string
  stdout_encoding :: "string option"

text \<open>\<open>logging.getLogger(name)\<close>: the registered logger, or a fresh one.\<close>

definition new_logger :: logger where
  "new_logger = \<lparr>lg_level = NOTSET, lg_propagate = True, lg_handlers = []\<rparr>"

definition getLogger :: "string \<Rightarrow> log_state \<Rightarrow> logger" where
  "getLogger name st = (case loggers st name of Some l \<Rightarrow> l | None \<Rightarrow> new_logger)"

definition put_logger :: "string \<Rightarrow> logger \<Rightarrow> log_state \<Rightarrow> log_state" where
  "put_logger name l st = st\<lparr>loggers := (loggers st)(name \<mapsto> l)\<rparr>"

text \<open>\<open>LOG_DIR / log_file\<close> (pathlib: an absolute right operand replaces the left).\<close>

definition path_join :: "string \<Rightarrow> string \<Rightarrow> string" where
  "path_join d f = (case f of CHR ''/'' # _ \<Rightarrow> f | _ \<Rightarrow> d @ ''/'' @ f)"

definition ascii_lower :: "char \<Rightarrow> char" where
  "ascii_lower c = (let n = (of_char c :: nat) in if 65 \<le> n \<and> n \<le> 90 then char_of (n + 32) else c)"

text \<open>
  \<open>_console_supports_utf8\<close>:
  \<open>enc = getattr(sys.stdout, "encoding", None) or ""\<close>, then
  \<open>enc.lower().replace("-", "") == "utf8"\<close>.
\<close>

definition console_supports_utf8 :: "log_state \<Rightarrow> bool" where
  "console_supports_utf8 st =
     (let enc = (case stdout_encoding st of None \<Rightarrow> [] | Some e \<Rightarrow> e)
      in filter (\<lambda>c. c \<noteq> CHR ''-'') (map ascii_lower enc) = ''utf8'')"

definition file_handler :: "string \<Rightarrow> int \<Rightarrow> handler" where
  "file_handler file_path level =
     \<lparr>h_kind = RotatingFileHandler file_path (5 * 1024 * 1024) 3 ''utf-8'',
      h_fmt = ''%(asctime)s | %(levelname)-8s | %(name)s | %(message)s'',
      h_datefmt = Some ''%Y-%m-%d %H:%M:%S'',
      h_level = level,
      h_filters = []\<rparr>"

definition console_handler :: "bool \<Rightarrow> int \<Rightarrow> handler" where
  "console_handler utf8 level =
     \<lparr>h_kind = StreamHandler ''sys.stdout'',
      h_fmt = ''%(levelname)s | %(message)s'',
      h_datefmt = None,
      h_level = level,
      h_filters = (if \<not> utf8 then [''StripNonEncodableFilter''] else [])\<rparr>"

text \<open>
  \<open>setup_logger(name, log_file, level)\<close>. The level and the propagate flag are set
  before the test on the handlers; the returned logger is the registered object, which
  the model names by \<open>name\<close>.
\<close>

definition setup_logger :: "string \<Rightarrow> string \<Rightarrow> int \<Rightarrow> log_state \<Rightarrow> string \<times> log_state" where
  "setup_logger name log_file level st =
     (let l0 = getLogger name st;
          l1 = l0\<lparr>lg_level := level\<rparr>;
          l2 = l1\<lparr>lg_propagate := False\<rparr>
      in if lg_handlers l2 \<noteq> [] then (name, put_logger name l2 st)
         else
           let file_path = path_join (LOG_DIR st) log_file;
               fh = file_handler file_path level;
               l3 = l2\<lparr>lg_handlers := lg_handlers l2 @ [fh]\<rparr>;
               ch = console_handler (console_supports_utf8 st) level;
               l4 = l3\<lparr>lg_handlers := lg_handlers l3 @ [ch]\<rparr>;
               st' = put_logger name l4 st
           in (name, st'\<lparr>capture_warnings := True\<rparr>))"

section \<open>The world the scripts act on\<close>

text \<open>
  A chat message is a dict with the keys \<open>role\<close> and \<open>content\<close>. The program never
  mutates a message, so messages are values; the lists that hold them are mutable
  objects and live in a heap, addressed by their index. A search result is a dict from
  field names to values.
\<close>

record message =
  role :: string
  content :: pyval

type_synonym addr = nat
type_synonym vector = "real list"
type_synonym search_result = "string \<rightharpoonup> pyval"
type_synonym document = string
type_synonym node = string

record vector_query =
  vq_kind :: string
  vq_vector :: vector
  vq_fields :: string
  vq_k :: int

datatype search_field =
    SimpleField (sf_name: string) (sf_type: string) (sf_key: bool) (sf_filterable: bool) (sf_facetable: bool)
  | SearchableField (sf_name: string) (sf_type: string) (sf_analyzer: string)
  | SearchField (sf_name: string) (sf_type: string) (sf_searchable: bool) (sf_dimensions: nat) (sf_profile: string)

record vector_search =
  algorithms :: "string list"
  profiles :: "(string \<times> string) list"

record search_index =
  si_name :: string
  si_fields :: "search_field list"
  si_vector_search :: vector_search

text \<open>
  Everything a script does to the outside is an event of the trace, in program order:
  calls of the logger, construction of service clients, requests to the three services
  and to the document libraries, and calls of the UI library.
\<close>

datatype event =
    Log string int string
  | LogException string string exn
  | Construct string "(string \<times> pyval) list"
  | EmbeddingsCreate string pyval
  | Search string "vector_query list" "string list"
  | ChatCompletionsCreate pyval "message list" real nat
  | ListIndexNames
  | DeleteIndex string
  | CreateIndex search_index
  | LoadData string "(string \<times> string) list"
  | GetNodesFromDocuments nat nat "document list"
  | VectorStoreIndex "node list"
  | SetPageConfig string string
  | Title string
  | ChatMessage string
  | Markdown pyval
  | ChatInput string
  | Rerun

record world =
  heap :: "message list list"
  trace :: "event list"
  logging :: log_state
  excepthook :: "string option"

definition emit :: "event \<Rightarrow> world \<Rightarrow> world" where
  "emit e w = w\<lparr>trace := trace w @ [e]\<rparr>"

text \<open>\<open>logger.info(msg)\<close>, \<open>logger.error(msg)\<close>, \<open>logger.debug(msg)\<close>\<close>

definition log_info :: "string \<Rightarrow> string \<Rightarrow> world \<Rightarrow> world" where
  "log_info lg msg w = emit (Log lg INFO msg) w"

definition log_error :: "string \<Rightarrow> string \<Rightarrow> world \<Rightarrow> world" where
  "log_error lg msg w = emit (Log lg ERROR msg) w"

definition log_debug :: "string \<Rightarrow> string \<Rightarrow> world \<Rightarrow> world" where
  "log_debug lg msg w = emit (Log lg DEBUG msg) w"

text \<open>\<open>logger.exception(msg)\<close> inside the handler of exception \<open>e\<close>\<close>

definition log_exception :: "string \<Rightarrow> string \<Rightarrow> exn \<Rightarrow> world \<Rightarrow> world" where
  "log_exception lg msg e w = emit (LogException lg msg e) w"

text \<open>
  \<open>install_global_exception_hook(logger)\<close> stores a handler in \<open>sys.excepthook\<close>;
  the model keeps the name of the logger the installed handler writes to.
\<close>

definition install_global_exception_hook :: "string \<Rightarrow> world \<Rightarrow> world" where
  "install_global_exception_hook lg w = w\<lparr>excepthook := Some lg\<rparr>"

text \<open>
  The first two statements of every script:
  \<open>logger = setup_logger(__name__, log_file=...)\<close> and
  \<open>install_global_exception_hook(logger)\<close>.
\<close>

definition configure_logging :: "string \<Rightarrow> string \<Rightarrow> world \<Rightarrow> string \<times> world" where
  "configure_logging name log_file w =
     (let (lg, ls) = setup_logger name log_file INFO (logging w);
          w1 = w\<lparr>logging := ls\<rparr>
      in (lg, install_global_exception_hook lg w1))"

text \<open>Lists in the heap: \<open>[]\<close>, \<open>copy.deepcopy(xs)\<close>, \<open>xs.append(m)\<close>.\<close>

definition new_list :: "world \<Rightarrow> addr \<times> world" where
  "new_list w = (length (heap w), w\<lparr>heap := heap w @ [[]]\<rparr>)"

definition deepcopy :: "addr \<Rightarrow> world \<Rightarrow> addr \<times> world" where
  "deepcopy a w = (length (heap w), w\<lparr>heap := heap w @ [heap w ! a]\<rparr>)"

definition list_append :: "addr \<Rightarrow> message \<Rightarrow> world \<Rightarrow> world" where
  "list_append a m w = w\<lparr>heap := (heap w)[a := heap w ! a @ [m]]\<rparr>"

text \<open>
  The environment after \<open>load_dotenv()\<close>. \<open>os.getenv(k)\<close> is \<open>None\<close> for a missing
  variable; \<open>os.getenv(k, d)\<close> is \<open>d\<close> only then, and the empty string of a variable
  set to nothing is returned as it is.
\<close>

type_synonym environ = "string \<rightharpoonup> string"

definition getenv :: "environ \<Rightarrow> string \<Rightarrow> pyval" where
  "getenv env k = (case env k of None \<Rightarrow> PNone | Some v \<Rightarrow> PStr v)"

definition getenv_default :: "environ \<Rightarrow> string \<Rightarrow> string \<Rightarrow> pyval" where
  "getenv_default env k d = (case env k of None \<Rightarrow> PStr d | Some v \<Rightarrow> PStr v)"

section \<open>query.py\<close>

text \<open>
  The services the chat script talks to. Each request either raises or answers:
  \<open>embeddings.create\<close> answers with the \<open>data\<close> list of embeddings;
  \<open>search\<close> answers with a paged iterator, read by the \<open>for\<close> loop, which yields
  finitely many results and then ends or raises; \<open>chat.completions.create\<close> answers
  with the contents of its \<open>choices\<close>.
\<close>

record query_services =
  embeddings_create :: "string \<Rightarrow> pyval \<Rightarrow> exn + vector list"
  search :: "string \<Rightarrow> vector_query list \<Rightarrow> string list \<Rightarrow> search_result list \<times> exn option"
  chat_completions_create :: "pyval \<Rightarrow> message list \<Rightarrow> real \<Rightarrow> nat \<Rightarrow> exn + pyval list"

text \<open>The module globals that the functions of query.py read.\<close>

record query_globals =
  logger :: string
  AZURE_OPENAI_ENDPOINT :: pyval
  AZURE_OPENAI_KEY :: pyval
  AZURE_OPENAI_CHAT_DEPLOYMENT :: pyval
  AZURE_OPENAI_EMBED_DEPLOYMENT :: pyval
  AZURE_SEARCH_ENDPOINT :: pyval
  AZURE_SEARCH_API_KEY :: pyval
  AZURE_SEARCH_INDEX :: pyval

text \<open>
  Sections 0 to 3 of the script: logging, environment, the two configuration checks,
  the two clients.
\<close>

definition query_startup :: "string \<Rightarrow> environ \<Rightarrow> world \<Rightarrow> (exn + query_globals) \<times> world" where
  "query_startup name env w =
     (let (lg, w1) = configure_logging name ''chat.log'' w;
          g = \<lparr>logger = lg,
               AZURE_OPENAI_ENDPOINT = getenv env ''AZURE_OPENAI_ENDPOINT'',
               AZURE_OPENAI_KEY = getenv env ''AZURE_OPENAI_API_KEY'',
               AZURE_OPENAI_CHAT_DEPLOYMENT = getenv_default env ''AZURE_OPENAI_CHAT_DEPLOYMENT'' ''chat'',
               AZURE_OPENAI_EMBED_DEPLOYMENT = getenv_default env ''AZURE_OPENAI_EMBED_DEPLOYMENT'' ''embed'',
               AZURE_SEARCH_ENDPOINT = getenv env ''AZURE_SEARCH_ENDPOINT'',
               AZURE_SEARCH_API_KEY = getenv env ''AZURE_SEARCH_API_KEY'',
               AZURE_SEARCH_INDEX = getenv env ''AZURE_SEARCH_INDEX''\<rparr>
      in if \<not> truthy (AZURE_OPENAI_ENDPOINT g) \<or> \<not> truthy (AZURE_OPENAI_KEY g) then
           (Inl (ValueError ''Azure OpenAI settings must be set in environment variables''),
            log_error lg '' Missing Azure OpenAI configuration in .env'' w1)
         else if \<not> truthy (AZURE_SEARCH_ENDPOINT g) \<or> \<not> truthy (AZURE_SEARCH_API_KEY g)
                 \<or> \<not> truthy (AZURE_SEARCH_INDEX g) then
           (Inl (ValueError ''Azure Search settings must be set in environment variables''),
            log_error lg ''Missing Azure Search configuration in .env'' w1)
         else
           let w2 = log_info lg ''Starting chatbot app (Streamlit + Azure OpenAI + Cognitive Search)'' w1;
               w3 = emit (Construct ''AzureOpenAI''
                           [(''api_key'', AZURE_OPENAI_KEY g),
                            (''api_version'', PStr ''2024-12-01-preview''),
                            (''azure_endpoint'', AZURE_OPENAI_ENDPOINT g)]) w2;
               w4 = log_info lg ''Azure OpenAI client initialized successfully'' w3;
               w5 = emit (Construct ''SearchClient''
                           [(''endpoint'', AZURE_SEARCH_ENDPOINT g),
                            (''index_name'', AZURE_SEARCH_INDEX g),
                            (''credential'', AZURE_SEARCH_API_KEY g)]) w4;
               w6 = log_info lg ('' Connected to Azure Cognitive Search index: '' @ fmt (AZURE_SEARCH_INDEX g)) w5
           in (Inr g, w6))"

text \<open>\<open>r.get(key)\<close> and \<open>r.get(key, default)\<close>\<close>

definition dict_get :: "search_result \<Rightarrow> string \<Rightarrow> pyval \<Rightarrow> pyval" where
  "dict_get r k d = (case r k of None \<Rightarrow> d | Some v \<Rightarrow> v)"

text \<open>The chunk built from one result: \<open>f"{content}\n(Source: {metadata or doc_id})"\<close>.\<close>

definition chunk_of :: "search_result \<Rightarrow> string" where
  "chunk_of r =
     (let content = dict_get r ''content'' PNone;
          metadata = dict_get r ''metadata'' (PStr []);
          doc_id = dict_get r ''doc_id'' (PStr [])
      in fmt content @ ''\<newline>(Source: '' @ fmt (py_or metadata doc_id) @ '')'')"

text \<open>The loop \<open>for r in results\<close> of step 3, with the list \<open>chunks\<close> it extends.\<close>

fun collect_chunks :: "search_result list \<Rightarrow> string list \<Rightarrow> string list" where
  "collect_chunks [] chunks = chunks"
| "collect_chunks (r # rs) chunks =
     (if truthy (dict_get r ''content'' PNone)
      then collect_chunks rs (chunks @ [chunk_of r])
      else collect_chunks rs chunks)"

text \<open>The \<open>try\<close> block of \<open>get_top_chunks\<close>: it returns the chunks or raises.\<close>

definition get_top_chunks_try ::
  "query_services \<Rightarrow> query_globals \<Rightarrow> string \<Rightarrow> int \<Rightarrow> world \<Rightarrow> (exn + string list) \<times> world" where
  "get_top_chunks_try sv g query top_k w =
     (let w1 = emit (EmbeddingsCreate query (AZURE_OPENAI_EMBED_DEPLOYMENT g)) w
      in (case embeddings_create sv query (AZURE_OPENAI_EMBED_DEPLOYMENT g) of
           Inl e \<Rightarrow> (Inl e, w1)
         | Inr data \<Rightarrow>
             (case index0 data of
                Inl e \<Rightarrow> (Inl e, w1)
              | Inr query_embedding \<Rightarrow>
                  (let vq = \<lparr>vq_kind = ''vector'', vq_vector = query_embedding,
                             vq_fields = ''embedding'', vq_k = top_k\<rparr>;
                      select = [''content'', ''metadata'', ''doc_id''];
                      w2 = emit (Search [] [vq] select) w1;
                      (results, err) = search sv [] [vq] select
                  in (case err of
                        Some e \<Rightarrow> (Inl e, w2)
                      | None \<Rightarrow>
                          (let chunks = collect_chunks results [];
                               w3 = log_info (logger g)
                                      ('' Retrieved '' @ str_nat (length chunks) @ '' chunks for query: '' @ query) w2
                           in (Inr chunks, w3)))))))"

text \<open>
  \<open>get_top_chunks(query, top_k)\<close>: the log line, the \<open>try\<close> block, and the handler
  \<open>except Exception\<close>, which logs and returns \<open>[]\<close>.
\<close>

definition get_top_chunks ::
  "query_services \<Rightarrow> query_globals \<Rightarrow> string \<Rightarrow> int \<Rightarrow> world \<Rightarrow> (exn + string list) \<times> world" where
  "get_top_chunks sv g query top_k w =
     (let w1 = log_info (logger g)
                 ('' Retrieving top '' @ str_int top_k @ '' chunks for query: '' @ query) w
      in case get_top_chunks_try sv g query top_k w1 of
           (Inr chunks, w2) \<Rightarrow> (Inr chunks, w2)
         | (Inl e, w2) \<Rightarrow> (Inr [], log_exception (logger g) ''Error occurred during vector search'' e w2))"

text \<open>The system instruction of step 3 (three adjacent string literals).\<close>

definition system_instruction :: string where
  "system_instruction =
     ''You are a helpful assistant. Use the provided context to answer questions accurately. '' @
     ''If the context is insufficient, give the most careful, concise answer possible. '' @
     ''Always cite the sources when available. Do not hallucinate beyond the context.''"

text \<open>
  Step 5 of \<open>generate_answer\<close>, the \<open>try\<close> block: the request and
  \<open>response.choices[0].message.content\<close>.
\<close>

definition chat_try ::
  "query_services \<Rightarrow> query_globals \<Rightarrow> message list \<Rightarrow> world \<Rightarrow> (exn + pyval) \<times> world" where
  "chat_try sv g messages w =
     (let w1 = emit (ChatCompletionsCreate (AZURE_OPENAI_CHAT_DEPLOYMENT g) messages 0.2 1000) w
      in (case chat_completions_create sv (AZURE_OPENAI_CHAT_DEPLOYMENT g) messages 0.2 1000 of
            Inl e \<Rightarrow> (Inl e, w1)
          | Inr choices \<Rightarrow>
              (case index0 choices of
                 Inl e \<Rightarrow> (Inl e, w1)
               | Inr answer \<Rightarrow> (Inr answer, log_info (logger g) ''Successfully generated AI response'' w1))))"

text \<open>
  \<open>generate_answer(user_query, chat_history)\<close>. \<open>chat_history\<close> is the caller's
  list object, \<open>messages\<close> the copy made in step 2; the result is the pair of the
  answer and the caller's list object. No handler surrounds the call of
  \<open>get_top_chunks\<close>, so an exception of it would leave the function.
\<close>

definition generate_answer ::
  "query_services \<Rightarrow> query_globals \<Rightarrow> string \<Rightarrow> addr \<Rightarrow> world \<Rightarrow> (exn + pyval \<times> addr) \<times> world" where
  "generate_answer sv g user_query chat_history w =
     (let w1 = log_info (logger g) (''Generating answer for user query: '' @ user_query) w
      in (case get_top_chunks sv g user_query 10 w1 of
            (Inl e, w2) \<Rightarrow> (Inl e, w2)
          | (Inr context_chunks, w2) \<Rightarrow>
              (let context_text = (if context_chunks \<noteq> [] then join ''\<newline>'' context_chunks else []);
                   (messages, w3) = deepcopy chat_history w2;
                   w4 = list_append messages
                          \<lparr>role = ''system'', content = PStr system_instruction\<rparr> w3;
                   w5 = list_append messages
                          \<lparr>role = ''user'',
                           content = PStr (''Context:\<newline>'' @ context_text @
                                           ''\<newline>\<newline>Question: '' @ user_query)\<rparr> w4;
                   (answer, w7) =
                     (case chat_try sv g (heap w5 ! messages) w5 of
                        (Inr a, w6) \<Rightarrow> (a, w6)
                      | (Inl e, w6) \<Rightarrow>
                          (PStr (''Error generating response: '' @ exn_str e),
                           log_exception (logger g) ''Failed to generate AI response'' e w6));
                   w8 = list_append chat_history \<lparr>role = ''user'', content = PStr user_query\<rparr> w7;
                   w9 = list_append chat_history \<lparr>role = ''assistant'', content = answer\<rparr> w8
               in (Inr (answer, chat_history), w9))))"

text \<open>
  Section 6, the Streamlit page. \<open>st.session_state\<close> has the one attribute
  \<open>chat_history\<close>, absent until the script creates it.
\<close>

record session_state =
  ss_chat_history :: "addr option"

definition bank :: string where
  "bank = [CHR 0xF0, CHR 0x9F, CHR 0x8F, CHR 0xA6]"

definition ellipsis :: string where
  "ellipsis = [CHR 0xE2, CHR 0x80, CHR 0xA6]"

text \<open>The loop that renders the history: one chat bubble and its markdown per message.\<close>

fun render_history :: "message list \<Rightarrow> world \<Rightarrow> world" where
  "render_history [] w = w"
| "render_history (msg # msgs) w =
     render_history msgs
       (emit (Markdown (content msg))
          (emit (ChatMessage (if role msg = ''user'' then ''user'' else ''assistant'')) w))"

text \<open>
  How a run of the script ends: it reaches its last line, it calls \<open>st.rerun()\<close>, or
  an exception leaves it.
\<close>

datatype outcome = Finished | RerunRequested | Raised exn

text \<open>
  The page, run with the value \<open>st.chat_input\<close> returns in this run: \<open>None\<close>, or the
  text the user has just submitted.
\<close>

definition chat_page ::
  "query_services \<Rightarrow> query_globals \<Rightarrow> string option \<Rightarrow> session_state \<Rightarrow> world
     \<Rightarrow> outcome \<times> session_state \<times> world" where
  "chat_page sv g submitted ss w =
     (let w1 = emit (SetPageConfig ''Citi'' bank) w;
          w2 = emit (Title (''Client Manual Chatbot '' @ bank)) w1;
          (h, ss1, w3) =
            (case ss_chat_history ss of
               Some h \<Rightarrow> (h, ss, w2)
             | None \<Rightarrow>
                 (let (h, w') = new_list w2
                  in (h, ss\<lparr>ss_chat_history := Some h\<rparr>,
                      log_info (logger g) ''Initialized empty chat history'' w')));
          w4 = render_history (heap w3 ! h) w3;
          w5 = emit (ChatInput (''Ask about the Client Manual'' @ ellipsis)) w4
      in (case submitted of
            None \<Rightarrow> (Finished, ss1, w5)
          | Some prompt \<Rightarrow>
              if prompt = [] then (Finished, ss1, w5)
              else
                (let w6 = log_info (logger g) ('' User asked: '' @ prompt) w5
                 in (case generate_answer sv g prompt h w6 of
                       (Inl e, w7) \<Rightarrow> (Raised e, ss1, w7)
                     | (Inr (_, h'), w7) \<Rightarrow>
                         (RerunRequested, ss1\<lparr>ss_chat_history := Some h'\<rparr>, emit Rerun w7)))))"

text \<open>One run of the whole script query.py.\<close>

definition query_script ::
  "string \<Rightarrow> environ \<Rightarrow> query_services \<Rightarrow> string option \<Rightarrow> session_state \<Rightarrow> world
     \<Rightarrow> outcome \<times> session_state \<times> world" where
  "query_script name env sv submitted ss w =
     (case query_startup name env w of
        (Inl e, w1) \<Rightarrow> (Raised e, ss, w1)
      | (Inr g, w1) \<Rightarrow> chat_page sv g submitted ss w1)"

text \<open>
  What Streamlit does when the user submits a text: it runs the script with that text
  as the value of the chat input, and when the run ends in \<open>st.rerun()\<close> it runs the
  script once more, the chat input now empty.
\<close>

definition submit ::
  "string \<Rightarrow> environ \<Rightarrow> query_services \<Rightarrow> string \<Rightarrow> session_state \<Rightarrow> world
     \<Rightarrow> outcome \<times> session_state \<times> world" where
  "submit name env sv prompt ss w =
     (case query_script name env sv (Some prompt) ss w of
        (RerunRequested, ss1, w1) \<Rightarrow> query_script name env sv None ss1 w1
      | r \<Rightarrow> r)"

section \<open>create_index.py\<close>

text \<open>
  In the two batch scripts, as in query.py, the calls that reach a service or the file
  system may raise; constructors of clients and the pure library calls (building the
  index definition, splitting documents) return.
\<close>

record index_services =
  list_index_names :: "exn + string list"
  delete_index :: "string \<Rightarrow> exn option"
  create_index :: "search_index \<Rightarrow> exn option"

definition quote :: "string \<Rightarrow> string" where
  "quote s = [CHR 0x27] @ s @ [CHR 0x27]"

text \<open>Step 3: the schema, the vector search configuration and the index definition.\<close>

definition fields :: "search_field list" where
  "fields =
     [SimpleField ''doc_id'' ''Edm.String'' True False False,
      SearchableField ''content'' ''Edm.String'' ''en.microsoft'',
      SearchField ''embedding'' ''Collection(Edm.Single)'' True 3072 ''my-vector-config'',
      SimpleField ''metadata'' ''Edm.String'' False True True]"

definition vector_search_config :: vector_search where
  "vector_search_config =
     \<lparr>algorithms = [''my-hnsw''], profiles = [(''my-vector-config'', ''my-hnsw'')]\<rparr>"

definition index_definition :: "pyval \<Rightarrow> search_index" where
  "index_definition index_name =
     \<lparr>si_name = fmt index_name, si_fields = fields, si_vector_search = vector_search_config\<rparr>"

text \<open>Step 4, the \<open>try\<close> block: it ends normally (\<open>None\<close>) or raises.\<close>

definition create_index_try ::
  "index_services \<Rightarrow> string \<Rightarrow> pyval \<Rightarrow> world \<Rightarrow> exn option \<times> world" where
  "create_index_try sv lg index_name w =
     (let w1 = emit ListIndexNames w
      in (case list_index_names sv of
            Inl e \<Rightarrow> (Some e, w1)
          | Inr existing_indexes \<Rightarrow>
              (let (raised, w3) =
                     (if fmt index_name \<in> set existing_indexes then
                        (let w2 = emit (DeleteIndex (fmt index_name))
                                    (log_info lg ('' Index '' @ quote (fmt index_name) @
                                       '' already exists. Deleting old version'' @ ellipsis) w1)
                         in (delete_index sv (fmt index_name), w2))
                      else (None, w1))
               in (case raised of
                     Some e \<Rightarrow> (Some e, w3)
                   | None \<Rightarrow>
                       (let w4 = emit (CreateIndex (index_definition index_name))
                                   (log_info lg (''Creating index '' @ quote (fmt index_name) @ ''...'') w3)
                        in (case create_index sv (index_definition index_name) of
                              Some e \<Rightarrow> (Some e, w4)
                            | None \<Rightarrow>
                                (None, log_info lg (''Index '' @ quote (fmt index_name) @
                                          '' created successfully!'') w4)))))))"

text \<open>The whole script: \<open>None\<close> when it runs to its end, the exception that leaves it otherwise.\<close>

definition create_index_script ::
  "string \<Rightarrow> environ \<Rightarrow> index_services \<Rightarrow> world \<Rightarrow> exn option \<times> world" where
  "create_index_script name env sv w =
     (let (lg, w1) = configure_logging name ''index.log'' w;
          endpoint = getenv env ''AZURE_SEARCH_ENDPOINT'';
          api_key = getenv env ''AZURE_SEARCH_API_KEY'';
          index_name = getenv_default env ''AZURE_SEARCH_INDEX'' ''client-manual-index''
      in if \<not> truthy endpoint \<or> \<not> truthy api_key then
           (Some (ValueError ''Azure Search endpoint and key must be set in environment variables''),
            log_error lg '' Missing Azure Search configuration in .env'' w1)
         else
           (let w2 = log_info lg '' Starting index creation process'' w1;
                w3 = log_debug lg (''Using endpoint: '' @ fmt endpoint @ '', index name: '' @ fmt index_name) w2;
                w4 = emit (Construct ''SearchIndexClient''
                            [(''endpoint'', endpoint), (''credential'', api_key)]) w3
            in (case create_index_try sv lg index_name w4 of
                  (None, w5) \<Rightarrow> (None, w5)
                | (Some e, w5) \<Rightarrow>
                    (Some e, log_exception lg ('' Failed to create/update index: '' @ exn_str e) e w5))))"

section \<open>ingest.py\<close>

record ingest_services =
  load_data :: "string \<Rightarrow> (string \<times> string) list \<Rightarrow> exn + document list"
  get_nodes_from_documents :: "nat \<Rightarrow> nat \<Rightarrow> document list \<Rightarrow> node list"
  vector_store_index :: "node list \<Rightarrow> exn option"

definition local_dir :: string where
  "local_dir = ''./data''"

text \<open>Steps 2 to 6, after the configuration checks.\<close>

definition ingest_steps ::
  "ingest_services \<Rightarrow> string \<Rightarrow> (string \<Rightarrow> pyval) \<Rightarrow> world \<Rightarrow> exn option \<times> world" where
  "ingest_steps sv lg var w =
     (let w1 = log_info lg '' Reading PDFs from local data folder...'' w;
          w2 = emit (LoadData local_dir [(''.pdf'', ''PDFReader'')]) w1
      in (case load_data sv local_dir [(''.pdf'', ''PDFReader'')] of
            Inl e \<Rightarrow> (Some e, log_exception lg ''Failed while reading documents'' e w2)
          | Inr documents \<Rightarrow>
              (let w3 = log_info lg (''Loaded '' @ str_nat (length documents) @ '' documents'') w2;
                   w4 = log_info lg ''Initializing Azure OpenAI embedding model...'' w3;
                   w5 = emit (Construct ''AzureOpenAIEmbedding''
                               [(''model'', PStr ''text-embedding-3-large''),
                                (''deployment_name'', var ''AZURE_OPENAI_EMBED_DEPLOYMENT''),
                                (''api_key'', var ''AZURE_OPENAI_API_KEY''),
                                (''azure_endpoint'', var ''AZURE_OPENAI_ENDPOINT''),
                                (''api_version'', var ''OPENAI_API_VERSION'')]) w4;
                   w6 = log_info lg ''Connecting to Azure AI Search vector store...'' w5;
                   w7 = emit (Construct ''SearchClient''
                               [(''endpoint'', var ''AZURE_SEARCH_ENDPOINT''),
                                (''index_name'', var ''AZURE_SEARCH_INDEX''),
                                (''credential'', var ''AZURE_SEARCH_API_KEY'')]) w6;
                   w8 = emit (Construct ''AzureAISearchVectorStore''
                               [(''id_field_key'', PStr ''doc_id''),
                                (''chunk_field_key'', PStr ''content''),
                                (''embedding_field_key'', PStr ''embedding''),
                                (''metadata_string_field_key'', PStr ''metadata''),
                                (''doc_id_field_key'', PStr ''doc_id'')]) w7;
                   w9 = emit (Construct ''StorageContext'' []) w8;
                   w10 = log_info lg ''Splitting documents into smaller chunks...'' w9;
                   w11 = emit (GetNodesFromDocuments 1000 100 documents) w10;
                   nodes = get_nodes_from_documents sv 1000 100 documents;
                   w12 = log_info lg (''Split '' @ str_nat (length documents) @ '' documents into '' @
                                       str_nat (length nodes) @ '' chunks'') w11;
                   w13 = log_info lg ''Building index and pushing to Azure AI Search...'' w12;
                   w14 = emit (VectorStoreIndex nodes) w13
               in (case vector_store_index sv nodes of
                     Some e \<Rightarrow> (Some e, log_exception lg ''Failed while building/pushing index'' e w14)
                   | None \<Rightarrow>
                       (None, log_info lg (''Successfully pushed '' @ str_nat (length nodes) @
                                 '' chunks into Azure AI Search index '' @
                                 quote (fmt (var ''AZURE_SEARCH_INDEX''))) w14)))))"

definition ingest_script ::
  "string \<Rightarrow> environ \<Rightarrow> ingest_services \<Rightarrow> world \<Rightarrow> exn option \<times> world" where
  "ingest_script name env sv w =
     (let (lg, w1) = configure_logging name ''ingest.log'' w;
          search_endpoint = getenv env ''AZURE_SEARCH_ENDPOINT'';
          search_key = getenv env ''AZURE_SEARCH_API_KEY'';
          search_index = getenv env ''AZURE_SEARCH_INDEX'';
          aoai_endpoint = getenv env ''AZURE_OPENAI_ENDPOINT'';
          aoai_key = getenv env ''AZURE_OPENAI_API_KEY'';
          aoai_embed_model = getenv env ''AZURE_OPENAI_EMBED_DEPLOYMENT''
      in if \<not> truthy search_endpoint \<or> \<not> truthy search_key \<or> \<not> truthy search_index then
           (Some (ValueError ''Azure Search settings must be set in environment variables''),
            log_error lg ''Missing Azure Search configuration in .env'' w1)
         else if \<not> truthy aoai_endpoint \<or> \<not> truthy aoai_key \<or> \<not> truthy aoai_embed_model then
           (Some (ValueError ''Azure OpenAI settings must be set in environment variables''),
            log_error lg ''Missing Azure OpenAI configuration in .env'' w1)
         else
           (let w2 = log_info lg ''Starting ingestion process'' w1;
                w3 = log_debug lg (''Using index: '' @ fmt search_index @ '', endpoint: '' @
                                    fmt search_endpoint) w2
            in ingest_steps sv lg (getenv env) w3))"

section \<open>Concrete states and services for the examples\<close>

text \<open>An interpreter that has imported \<open>logging\<close> and registered no logger yet.\<close>

definition fresh_logging :: log_state where
  "fresh_logging =
     \<lparr>loggers = Map.empty, capture_warnings = False, LOG_DIR = ''/app/logs'',
      stdout_encoding = Some ''UTF-8''\<rparr>"


text \<open>A world with no list allocated and nothing done yet.\<close>

definition world0 :: world where
  "world0 = \<lparr>heap = [], trace = [], logging = fresh_logging, excepthook = None\<rparr>"

text \<open>The globals of query.py after a start with the deployments left at their defaults.\<close>

definition globals0 :: query_globals where
  "globals0 = \<lparr>logger = ''__main__'',
         AZURE_OPENAI_ENDPOINT = PStr ''https://aoai.example'',
         AZURE_OPENAI_KEY = PStr ''k1'',
         AZURE_OPENAI_CHAT_DEPLOYMENT = PStr ''chat'',
         AZURE_OPENAI_EMBED_DEPLOYMENT = PStr ''embed'',
         AZURE_SEARCH_ENDPOINT = PStr ''https://search.example'',
         AZURE_SEARCH_API_KEY = PStr ''k2'',
         AZURE_SEARCH_INDEX = PStr ''client-manual-index''\<rparr>"

text \<open>
  Three search results: one with content and metadata, one whose content is empty,
  one with content, no metadata and a document id.
\<close>

definition result1 :: search_result where
  "result1 = [''content'' \<mapsto> PStr ''Fees are in section 4.'', ''metadata'' \<mapsto> PStr ''manual.pdf'',
         ''doc_id'' \<mapsto> PStr ''d1'']"

definition result2 :: search_result where
  "result2 = [''content'' \<mapsto> PStr [], ''metadata'' \<mapsto> PStr ''manual.pdf'', ''doc_id'' \<mapsto> PStr ''d2'']"

definition result3 :: search_result where
  "result3 = [''content'' \<mapsto> PStr ''Accounts close after 90 days.'', ''doc_id'' \<mapsto> PStr ''d3'']"

definition connection_error :: exn where
  "connection_error = Exn ''APIConnectionError'' ''Connection error.''"

text \<open>
  Services that answer every request: one embedding, the three results above whatever
  \<open>k\<close> is, one choice.
\<close>

definition good_services :: query_services where
  "good_services =
     \<lparr>embeddings_create = (\<lambda>input model. Inr [[1, 0, 2]]),
      search = (\<lambda>search_text vector_queries select. ([result1, result2, result3], None)),
      chat_completions_create = (\<lambda>model messages temperature max_tokens. Inr [PStr ''See section 4.''])\<rparr>"

text \<open>The embedding request raises.\<close>

definition embed_fails :: query_services where
  "embed_fails = good_services\<lparr>embeddings_create := (\<lambda>input model. Inl connection_error)\<rparr>"

text \<open>The embedding request answers with an empty \<open>data\<close> list.\<close>

definition embed_empty :: query_services where
  "embed_empty = good_services\<lparr>embeddings_create := (\<lambda>input model. Inr [])\<rparr>"

text \<open>Reading the search results raises after the first result.\<close>

definition search_fails :: query_services where
  "search_fails = good_services\<lparr>search := (\<lambda>search_text vector_queries select. ([result1], Some connection_error))\<rparr>"

text \<open>The chat request raises.\<close>

definition chat_fails :: query_services where
  "chat_fails = good_services\<lparr>chat_completions_create :=
     (\<lambda>model messages temperature max_tokens. Inl connection_error)\<rparr>"

text \<open>A world whose heap holds one list, a chat history of one earlier turn.\<close>

definition world1 :: world where
  "world1 = world0\<lparr>heap := [[\<lparr>role = ''user'', content = PStr ''hi''\<rparr>,
                               \<lparr>role = ''assistant'', content = PStr ''Hello.''\<rparr>]]\<rparr>"

text \<open>An environment with every variable set, and two defective ones.\<close>

definition env_full :: environ where
  "env_full =
     [''AZURE_SEARCH_ENDPOINT'' \<mapsto> ''https://search.example'',
      ''AZURE_SEARCH_API_KEY'' \<mapsto> ''k2'',
      ''AZURE_SEARCH_INDEX'' \<mapsto> ''client-manual-index'',
      ''AZURE_OPENAI_ENDPOINT'' \<mapsto> ''https://aoai.example'',
      ''AZURE_OPENAI_API_KEY'' \<mapsto> ''k1'',
      ''AZURE_OPENAI_EMBED_DEPLOYMENT'' \<mapsto> ''embed'',
      ''AZURE_OPENAI_CHAT_DEPLOYMENT'' \<mapsto> ''chat'',
      ''OPENAI_API_VERSION'' \<mapsto> ''2024-12-01-preview'']"

text \<open>The search key is not set.\<close>

definition env_no_search_key :: environ where
  "env_no_search_key = env_full(''AZURE_SEARCH_API_KEY'' := None)"

text \<open>The OpenAI endpoint is set to the empty string.\<close>

definition env_empty_openai_endpoint :: environ where
  "env_empty_openai_endpoint = env_full(''AZURE_OPENAI_ENDPOINT'' \<mapsto> [])"

text \<open>Index and ingestion services that answer every request, and failing variants.\<close>

definition index_ok :: index_services where
  "index_ok =
     \<lparr>list_index_names = Inr [''client-manual-index''],
      delete_index = (\<lambda>name. None),
      create_index = (\<lambda>index. None)\<rparr>"

definition index_list_fails :: index_services where
  "index_list_fails = index_ok\<lparr>list_index_names := Inl connection_error\<rparr>"

definition index_delete_fails :: index_services where
  "index_delete_fails = index_ok\<lparr>delete_index := (\<lambda>name. Some connection_error)\<rparr>"

definition index_create_fails :: index_services where
  "index_create_fails = index_ok\<lparr>create_index := (\<lambda>index. Some connection_error)\<rparr>"

definition ingest_ok :: ingest_services where
  "ingest_ok =
     \<lparr>load_data = (\<lambda>dir extractor. Inr [''page one. page two.'', ''page three.'']),
      get_nodes_from_documents = (\<lambda>chunk_size chunk_overlap documents. documents @ [''tail'']),
      vector_store_index = (\<lambda>nodes. None)\<rparr>"

definition ingest_load_fails :: ingest_services where
  "ingest_load_fails = ingest_ok\<lparr>load_data := (\<lambda>dir extractor. Inl connection_error)\<rparr>"

definition ingest_push_fails :: ingest_services where
  "ingest_push_fails = ingest_ok\<lparr>vector_store_index := (\<lambda>nodes. Some connection_error)\<rparr>"

section \<open>Reading a trace\<close>

text \<open>The chat-completion requests of a trace, in order: the model and the messages sent.\<close>

fun chat_calls :: "event list \<Rightarrow> (pyval \<times> message list) list" where
  "chat_calls [] = []"
| "chat_calls (ChatCompletionsCreate model messages temperature max_tokens # es) =
     (model, messages) # chat_calls es"
| "chat_calls (e # es) = chat_calls es"

text \<open>A variable that is missing from the environment or set to the empty string.\<close>

definition unset_or_empty :: "environ \<Rightarrow> string \<Rightarrow> bool" where
  "unset_or_empty env k = (case env k of None \<Rightarrow> True | Some v \<Rightarrow> v = [])"

text \<open>The requests of the ingestion pipeline: load, split, build and push.\<close>

fun is_ingest_call :: "event \<Rightarrow> bool" where
  "is_ingest_call (LoadData d x) = True"
| "is_ingest_call (GetNodesFromDocuments c ov ds) = True"
| "is_ingest_call (VectorStoreIndex ns) = True"
| "is_ingest_call e = False"

text \<open>
  The steps of answering: the three service requests, the rerun, and the rendering of a
  message (its chat bubble and its markdown).
\<close>

fun is_step :: "event \<Rightarrow> bool" where
  "is_step (EmbeddingsCreate i m) = True"
| "is_step (Search t vqs sel) = True"
| "is_step (ChatCompletionsCreate m ms t n) = True"
| "is_step (ChatMessage r) = True"
| "is_step (Markdown c) = True"
| "is_step Rerun = True"
| "is_step e = False"

text \<open>What rendering a list of messages adds to the trace.\<close>

fun rendering :: "message list \<Rightarrow> event list" where
  "rendering [] = []"
| "rendering (msg # msgs) =
     ChatMessage (if role msg = ''user'' then ''user'' else ''assistant'') # Markdown (content msg)
       # rendering msgs"

section \<open>Basic facts about the world operations\<close>

lemma emit_simps [simp]:
  "trace (emit e w) = trace w @ [e]"
  "heap (emit e w) = heap w"
  "logging (emit e w) = logging w"
  "excepthook (emit e w) = excepthook w"
  by (simp_all add: emit_def)

lemma log_simps [simp]:
  "log_info lg msg w = emit (Log lg INFO msg) w"
  "log_error lg msg w = emit (Log lg ERROR msg) w"
  "log_debug lg msg w = emit (Log lg DEBUG msg) w"
  "log_exception lg msg e w = emit (LogException lg msg e) w"
  by (simp_all add: log_info_def log_error_def log_debug_def log_exception_def)

lemma configure_logging_simps [simp]:
  "fst (configure_logging name log_file w) = name"
  "trace (snd (configure_logging name log_file w)) = trace w"
  "heap (snd (configure_logging name log_file w)) = heap w"
  by (simp_all add: configure_logging_def setup_logger_def install_global_exception_hook_def
        Let_def split: prod.splits)

lemma configure_logging_eq:
  "configure_logging name log_file w =
     (name, w\<lparr>logging := snd (setup_logger name log_file INFO (logging w)), excepthook := Some name\<rparr>)"
  by (simp add: configure_logging_def setup_logger_def install_global_exception_hook_def
        Let_def split: prod.splits)

lemma list_append_simps [simp]:
  "trace (list_append a m w) = trace w"
  "heap (list_append a m w) = (heap w)[a := heap w ! a @ [m]]"
  by (simp_all add: list_append_def)

lemma deepcopy_simps [simp]:
  "fst (deepcopy a w) = length (heap w)"
  "trace (snd (deepcopy a w)) = trace w"
  "heap (snd (deepcopy a w)) = heap w @ [heap w ! a]"
  by (simp_all add: deepcopy_def)

lemma new_list_simps [simp]:
  "fst (new_list w) = length (heap w)"
  "trace (snd (new_list w)) = trace w"
  "heap (snd (new_list w)) = heap w @ [[]]"
  by (simp_all add: new_list_def)

section \<open>Facts about retrieval\<close>

text \<open>The results the loop keeps: those whose content is a non-empty string.\<close>

lemma collect_chunks_eq:
  "collect_chunks rs chunks =
     chunks @ map chunk_of (filter (\<lambda>r. truthy (dict_get r ''content'' PNone)) rs)"
  by (induction rs arbitrary: chunks) simp_all

lemma get_top_chunks_try_heap [simp]:
  "heap (snd (get_top_chunks_try sv g query top_k w)) = heap w"
  by (simp add: get_top_chunks_try_def Let_def split: sum.splits prod.splits option.splits)

lemma get_top_chunks_heap [simp]:
  "heap (snd (get_top_chunks sv g query top_k w)) = heap w"
  by (simp add: get_top_chunks_def get_top_chunks_try_def Let_def
        split: sum.splits prod.splits option.splits)

text \<open>What the \<open>try\<close> block returns does not depend on the world it starts in.\<close>

lemma get_top_chunks_try_result:
  "fst (get_top_chunks_try sv g query top_k w) = fst (get_top_chunks_try sv g query top_k w')"
  by (simp add: get_top_chunks_try_def Let_def split: sum.splits prod.splits option.splits)

lemma get_top_chunks_result:
  "fst (get_top_chunks sv g query top_k w) =
     (case fst (get_top_chunks_try sv g query top_k u) of Inl e \<Rightarrow> Inr [] | Inr chunks \<Rightarrow> Inr chunks)"
  by (simp add: get_top_chunks_def get_top_chunks_try_def Let_def
        split: sum.splits prod.splits option.splits)

lemma get_top_chunks_returns:
  "\<exists>chunks. fst (get_top_chunks sv g query top_k w) = Inr chunks"
  by (simp add: get_top_chunks_result [of sv g query top_k w w] split: sum.splits)

text \<open>The four ways the \<open>try\<close> block can go, by what the services answer.\<close>

lemma try_embedding_raises:
  assumes "embeddings_create sv query (AZURE_OPENAI_EMBED_DEPLOYMENT g) = Inl e"
  shows "get_top_chunks_try sv g query top_k w =
           (Inl e, emit (EmbeddingsCreate query (AZURE_OPENAI_EMBED_DEPLOYMENT g)) w)"
  using assms by (simp add: get_top_chunks_try_def)

lemma try_embedding_empty:
  assumes "embeddings_create sv query (AZURE_OPENAI_EMBED_DEPLOYMENT g) = Inr []"
  shows "get_top_chunks_try sv g query top_k w =
           (Inl IndexError, emit (EmbeddingsCreate query (AZURE_OPENAI_EMBED_DEPLOYMENT g)) w)"
  using assms by (simp add: get_top_chunks_try_def index0_def)

lemma try_search_raises:
  assumes "embeddings_create sv query (AZURE_OPENAI_EMBED_DEPLOYMENT g) = Inr (v # vs)"
    and "search sv []
           [\<lparr>vq_kind = ''vector'', vq_vector = v, vq_fields = ''embedding'', vq_k = top_k\<rparr>]
           [''content'', ''metadata'', ''doc_id''] = (results, Some e)"
  shows "get_top_chunks_try sv g query top_k w =
           (Inl e,
            emit (Search []
                    [\<lparr>vq_kind = ''vector'', vq_vector = v, vq_fields = ''embedding'', vq_k = top_k\<rparr>]
                    [''content'', ''metadata'', ''doc_id''])
              (emit (EmbeddingsCreate query (AZURE_OPENAI_EMBED_DEPLOYMENT g)) w))"
  using assms by (simp add: get_top_chunks_try_def index0_def)

lemma try_search_returns:
  assumes "embeddings_create sv query (AZURE_OPENAI_EMBED_DEPLOYMENT g) = Inr (v # vs)"
    and "search sv []
           [\<lparr>vq_kind = ''vector'', vq_vector = v, vq_fields = ''embedding'', vq_k = top_k\<rparr>]
           [''content'', ''metadata'', ''doc_id''] = (results, None)"
  shows "get_top_chunks_try sv g query top_k w =
           (Inr (collect_chunks results []),
            emit (Log (logger g) INFO
                    ('' Retrieved '' @ str_nat (length (collect_chunks results [])) @
                     '' chunks for query: '' @ query))
              (emit (Search []
                      [\<lparr>vq_kind = ''vector'', vq_vector = v, vq_fields = ''embedding'', vq_k = top_k\<rparr>]
                      [''content'', ''metadata'', ''doc_id''])
                 (emit (EmbeddingsCreate query (AZURE_OPENAI_EMBED_DEPLOYMENT g)) w)))"
  using assms by (simp add: get_top_chunks_try_def index0_def Let_def)

text \<open>The run in which both requests of the retrieval succeed.\<close>

lemma get_top_chunks_ok:
  assumes "embeddings_create sv query (AZURE_OPENAI_EMBED_DEPLOYMENT g) = Inr (v # vs)"
    and "search sv []
           [\<lparr>vq_kind = ''vector'', vq_vector = v, vq_fields = ''embedding'', vq_k = top_k\<rparr>]
           [''content'', ''metadata'', ''doc_id''] = (results, None)"
  shows "get_top_chunks sv g query top_k w =
      (Inr (map chunk_of (filter (\<lambda>r. truthy (dict_get r ''content'' PNone)) results)),
       w\<lparr>trace := trace w @
          [Log (logger g) INFO ('' Retrieving top '' @ str_int top_k @ '' chunks for query: '' @ query),
           EmbeddingsCreate query (AZURE_OPENAI_EMBED_DEPLOYMENT g),
           Search []
             [\<lparr>vq_kind = ''vector'', vq_vector = v, vq_fields = ''embedding'', vq_k = top_k\<rparr>]
             [''content'', ''metadata'', ''doc_id''],
           Log (logger g) INFO
             ('' Retrieved '' @
              str_nat (length (map chunk_of (filter (\<lambda>r. truthy (dict_get r ''content'' PNone)) results))) @
              '' chunks for query: '' @ query)]\<rparr>)"
  by (simp add: get_top_chunks_def try_search_returns [OF assms] collect_chunks_eq emit_def)

section \<open>Facts about generate_answer\<close>

lemma chat_calls_append [simp]:
  "chat_calls (es @ es') = chat_calls es @ chat_calls es'"
  by (induction es rule: chat_calls.induct) simp_all

lemma get_top_chunks_no_chat [simp]:
  "chat_calls (trace (snd (get_top_chunks sv g query top_k w))) = chat_calls (trace w)"
  by (simp add: get_top_chunks_def get_top_chunks_try_def Let_def
        split: sum.splits prod.splits option.splits)

lemma get_top_chunks_same_result:
  "fst (get_top_chunks sv g query top_k w) = fst (get_top_chunks sv g query top_k w')"
  by (simp add: get_top_chunks_result [of sv g query top_k w w']
        get_top_chunks_result [of sv g query top_k w' w'])

text \<open>\<open>sep.join(xs) if xs else ""\<close> is \<open>sep.join(xs)\<close>.\<close>

lemma join_if_nonempty:
  "(if xs \<noteq> [] then join sep xs else []) = join sep xs"
  by simp

text \<open>
  The request of step 5 and what follows it: the answer, and the one log entry written
  after the request.
\<close>

lemma chat_try_cases:
  "\<exists>r post. chat_try sv g messages w =
      (r, w\<lparr>trace := trace w @
              ChatCompletionsCreate (AZURE_OPENAI_CHAT_DEPLOYMENT g) messages 0.2 1000 # post\<rparr>)
      \<and> chat_calls post = []"
proof (cases "chat_completions_create sv (AZURE_OPENAI_CHAT_DEPLOYMENT g) messages 0.2 1000")
  case (Inl e)
  then show ?thesis
    by (intro exI [of _ "Inl e"] exI [of _ "[]"]) (simp add: chat_try_def emit_def)
next
  case (Inr choices)
  show ?thesis
  proof (cases choices)
    case Nil
    with Inr show ?thesis
      by (intro exI [of _ "Inl IndexError"] exI [of _ "[]"]) (simp add: chat_try_def emit_def index0_def)
  next
    case (Cons a rest)
    with Inr show ?thesis
      by (intro exI [of _ "Inr a"]
            exI [of _ "[Log (logger g) INFO ''Successfully generated AI response'']"])
         (simp add: chat_try_def emit_def index0_def)
  qed
qed

text \<open>
  The whole function, for a caller's list that exists: the result, the heap and the
  trace, in terms of what \<open>get_top_chunks\<close> did.
\<close>

lemma generate_answer_unfold:
  assumes h: "chat_history < length (heap w)"
    and chunks: "fst (get_top_chunks sv g user_query 10 u) = Inr context_chunks"
  shows "\<exists>answer post.
           fst (generate_answer sv g user_query chat_history w) = Inr (answer, chat_history)
           \<and> heap (snd (generate_answer sv g user_query chat_history w)) =
               (heap w)[chat_history := heap w ! chat_history @
                  [\<lparr>role = ''user'', content = PStr user_query\<rparr>,
                   \<lparr>role = ''assistant'', content = answer\<rparr>]]
               @ [heap w ! chat_history @
                  [\<lparr>role = ''system'', content = PStr system_instruction\<rparr>,
                   \<lparr>role = ''user'',
                    content = PStr (''Context:\<newline>'' @ join ''\<newline>'' context_chunks @
                                    ''\<newline>\<newline>Question: '' @ user_query)\<rparr>]]
           \<and> trace (snd (generate_answer sv g user_query chat_history w)) =
               trace (snd (get_top_chunks sv g user_query 10
                        (log_info (logger g) (''Generating answer for user query: '' @ user_query) w)))
               @ ChatCompletionsCreate (AZURE_OPENAI_CHAT_DEPLOYMENT g)
                   (heap w ! chat_history @
                     [\<lparr>role = ''system'', content = PStr system_instruction\<rparr>,
                      \<lparr>role = ''user'',
                       content = PStr (''Context:\<newline>'' @ join ''\<newline>'' context_chunks @
                                       ''\<newline>\<newline>Question: '' @ user_query)\<rparr>])
                   0.2 1000 # post
           \<and> chat_calls post = []
           \<and> filter is_step post = []
           \<and> (case chat_completions_create sv (AZURE_OPENAI_CHAT_DEPLOYMENT g)
                     (heap w ! chat_history @
                       [\<lparr>role = ''system'', content = PStr system_instruction\<rparr>,
                        \<lparr>role = ''user'',
                         content = PStr (''Context:\<newline>'' @ join ''\<newline>'' context_chunks @
                                         ''\<newline>\<newline>Question: '' @ user_query)\<rparr>])
                     0.2 1000 of
                 Inl e \<Rightarrow>
                   answer = PStr (''Error generating response: '' @ exn_str e)
                   \<and> post = [LogException (logger g) ''Failed to generate AI response'' e]
               | Inr [] \<Rightarrow>
                   answer = PStr (''Error generating response: '' @ exn_str IndexError)
                   \<and> post = [LogException (logger g) ''Failed to generate AI response'' IndexError]
               | Inr (a # rest) \<Rightarrow>
                   answer = a \<and> post = [Log (logger g) INFO ''Successfully generated AI response''])"
proof -
  let ?w1 = "log_info (logger g) (''Generating answer for user query: '' @ user_query) w"
  let ?sys = "\<lparr>role = ''system'', content = PStr system_instruction\<rparr>"
  let ?usr = "\<lparr>role = ''user'',
               content = PStr (''Context:\<newline>'' @ join ''\<newline>'' context_chunks @
                               ''\<newline>\<newline>Question: '' @ user_query)\<rparr>"
  let ?messages = "heap w ! chat_history @ [?sys, ?usr]"
  obtain w2 where gt: "get_top_chunks sv g user_query 10 ?w1 = (Inr context_chunks, w2)"
    using chunks get_top_chunks_same_result [of sv g user_query 10 ?w1 u]
    by (cases "get_top_chunks sv g user_query 10 ?w1") simp
  have heap2: "heap w2 = heap w"
  proof -
    have "heap (snd (get_top_chunks sv g user_query 10 ?w1)) = heap ?w1"
      by (rule get_top_chunks_heap)
    then have "heap w2 = heap ?w1"
      by (simp only: gt snd_conv)
    then show ?thesis
      by simp
  qed
  show ?thesis
  proof (cases "chat_completions_create sv (AZURE_OPENAI_CHAT_DEPLOYMENT g) ?messages 0.2 1000")
    case (Inl e)
    show ?thesis
      apply (rule exI [of _ "PStr (''Error generating response: '' @ exn_str e)"])
      apply (rule exI [of _ "[LogException (logger g) ''Failed to generate AI response'' e]"])
      using gt h heap2 Inl
      apply (simp add: generate_answer_def chat_try_def Let_def deepcopy_def list_append_def
               emit_def nth_append list_update_append join_if_nonempty)
      done
  next
    case (Inr choices)
    show ?thesis
    proof (cases choices)
      case Nil
      show ?thesis
        apply (rule exI [of _ "PStr (''Error generating response: '' @ exn_str IndexError)"])
        apply (rule exI [of _ "[LogException (logger g) ''Failed to generate AI response'' IndexError]"])
        using gt h heap2 Inr Nil
        apply (simp add: generate_answer_def chat_try_def Let_def deepcopy_def list_append_def
                 emit_def nth_append list_update_append join_if_nonempty index0_def)
        done
    next
      case (Cons a rest)
      show ?thesis
        apply (rule exI [of _ a])
        apply (rule exI [of _ "[Log (logger g) INFO ''Successfully generated AI response'']"])
        using gt h heap2 Inr Cons
        apply (simp add: generate_answer_def chat_try_def Let_def deepcopy_def list_append_def
                 emit_def nth_append list_update_append join_if_nonempty index0_def)
        done
    qed
  qed
qed

text \<open>No exception leaves \<open>generate_answer\<close>, whatever the services do.\<close>

lemma generate_answer_returns:
  "\<exists>r. fst (generate_answer sv g user_query chat_history w) = Inr r"
proof -
  obtain context_chunks w2 where
    "get_top_chunks sv g user_query 10
       (log_info (logger g) (''Generating answer for user query: '' @ user_query) w) = (Inr context_chunks, w2)"
    using get_top_chunks_returns
      [of sv g user_query 10 "log_info (logger g) (''Generating answer for user query: '' @ user_query) w"]
    by (metis prod.collapse)
  then show ?thesis
    by (simp add: generate_answer_def Let_def del: log_simps split: prod.splits)
qed

text \<open>When the \<open>try\<close> block of the retrieval raises, the handler logs that exception last.\<close>

lemma get_top_chunks_handler:
  assumes "fst (get_top_chunks_try sv g query top_k u) = Inl e"
  shows "fst (get_top_chunks sv g query top_k w) = Inr []"
    and "last (trace (snd (get_top_chunks sv g query top_k w))) =
           LogException (logger g) ''Error occurred during vector search'' e"
  using assms
  by (auto simp add: get_top_chunks_def get_top_chunks_try_def Let_def
        split: sum.splits prod.splits option.splits)

section \<open>Facts about the batch scripts\<close>

lemma truthy_getenv:
  "truthy (getenv env k) = (\<not> unset_or_empty env k)"
  by (simp add: getenv_def unset_or_empty_def split: option.splits)

text \<open>With its six variables set, ingest.py passes both checks and runs its steps.\<close>

lemma ingest_script_configured:
  assumes "\<not> unset_or_empty env ''AZURE_SEARCH_ENDPOINT''"
    and "\<not> unset_or_empty env ''AZURE_SEARCH_API_KEY''"
    and "\<not> unset_or_empty env ''AZURE_SEARCH_INDEX''"
    and "\<not> unset_or_empty env ''AZURE_OPENAI_ENDPOINT''"
    and "\<not> unset_or_empty env ''AZURE_OPENAI_API_KEY''"
    and "\<not> unset_or_empty env ''AZURE_OPENAI_EMBED_DEPLOYMENT''"
  shows "ingest_script name env sv w =
           ingest_steps sv name (getenv env)
             (emit (Log name DEBUG (''Using index: '' @ fmt (getenv env ''AZURE_SEARCH_INDEX'') @
                                     '', endpoint: '' @ fmt (getenv env ''AZURE_SEARCH_ENDPOINT'')))
                (emit (Log name INFO ''Starting ingestion process'')
                   (snd (configure_logging name ''ingest.log'' w))))"
  using assms by (simp add: ingest_script_def configure_logging_eq truthy_getenv Let_def)

lemma ingest_steps_calls:
  assumes "load_data sv local_dir [(''.pdf'', ''PDFReader'')] = Inr documents"
  shows "filter is_ingest_call (trace (snd (ingest_steps sv lg var w))) =
           filter is_ingest_call (trace w) @
             [LoadData local_dir [(''.pdf'', ''PDFReader'')],
              GetNodesFromDocuments 1000 100 documents,
              VectorStoreIndex (get_nodes_from_documents sv 1000 100 documents)]"
  using assms by (simp add: ingest_steps_def Let_def split: option.splits)

lemma ingest_steps_pushed:
  assumes "load_data sv local_dir [(''.pdf'', ''PDFReader'')] = Inr documents"
    and "vector_store_index sv (get_nodes_from_documents sv 1000 100 documents) = None"
  shows "fst (ingest_steps sv lg var w) = None"
    and "last (trace (snd (ingest_steps sv lg var w))) =
           Log lg INFO (''Successfully pushed '' @
                        str_nat (length (get_nodes_from_documents sv 1000 100 documents)) @
                        '' chunks into Azure AI Search index '' @ quote (fmt (var ''AZURE_SEARCH_INDEX'')))"
  using assms by (simp_all add: ingest_steps_def Let_def)

lemma ingest_steps_load_raises:
  assumes "load_data sv local_dir [(''.pdf'', ''PDFReader'')] = Inl e"
  shows "fst (ingest_steps sv lg var w) = Some e"
    and "last (trace (snd (ingest_steps sv lg var w))) = LogException lg ''Failed while reading documents'' e"
  using assms by (simp_all add: ingest_steps_def Let_def)

lemma ingest_steps_push_raises:
  assumes "load_data sv local_dir [(''.pdf'', ''PDFReader'')] = Inr documents"
    and "vector_store_index sv (get_nodes_from_documents sv 1000 100 documents) = Some e"
  shows "fst (ingest_steps sv lg var w) = Some e"
    and "last (trace (snd (ingest_steps sv lg var w))) = LogException lg ''Failed while building/pushing index'' e"
  using assms by (simp_all add: ingest_steps_def Let_def)

text \<open>Whatever exception leaves the steps of ingest.py was logged by a handler just before.\<close>

lemma ingest_steps_logged:
  assumes "fst (ingest_steps sv lg var w) = Some e"
  shows "\<exists>m. last (trace (snd (ingest_steps sv lg var w))) = LogException lg m e"
  using assms by (auto simp add: ingest_steps_def Let_def split: sum.splits option.splits)

text \<open>What the \<open>try\<close> block of create_index.py raises, by what the service answers.\<close>

lemma create_index_try_result:
  "fst (create_index_try sv lg index_name w) =
     (case list_index_names sv of
        Inl e \<Rightarrow> Some e
      | Inr existing_indexes \<Rightarrow>
          (case (if fmt index_name \<in> set existing_indexes then delete_index sv (fmt index_name) else None) of
             Some e \<Rightarrow> Some e
           | None \<Rightarrow> create_index sv (index_definition index_name)))"
  by (simp add: create_index_try_def Let_def split: sum.splits option.splits)

text \<open>With endpoint and key set, create_index.py reaches its \<open>try\<close> block and handler.\<close>

lemma create_index_script_configured:
  assumes "\<not> unset_or_empty env ''AZURE_SEARCH_ENDPOINT''"
    and "\<not> unset_or_empty env ''AZURE_SEARCH_API_KEY''"
  shows "fst (create_index_script name env sv w) =
           fst (create_index_try sv name (getenv_default env ''AZURE_SEARCH_INDEX'' ''client-manual-index'') u)"
    and "fst (create_index_script name env sv w) = Some e \<Longrightarrow>
           last (trace (snd (create_index_script name env sv w))) =
             LogException name ('' Failed to create/update index: '' @ exn_str e) e"
proof -
  let ?idx = "getenv_default env ''AZURE_SEARCH_INDEX'' ''client-manual-index''"
  let ?w4 = "emit (Construct ''SearchIndexClient''
                     [(''endpoint'', getenv env ''AZURE_SEARCH_ENDPOINT''),
                      (''credential'', getenv env ''AZURE_SEARCH_API_KEY'')])
               (emit (Log name DEBUG (''Using endpoint: '' @ fmt (getenv env ''AZURE_SEARCH_ENDPOINT'') @
                                       '', index name: '' @ fmt ?idx))
                  (emit (Log name INFO '' Starting index creation process'')
                     (snd (configure_logging name ''index.log'' w))))"
  have run: "create_index_script name env sv w =
      (case create_index_try sv name ?idx ?w4 of
         (None, w5) \<Rightarrow> (None, w5)
       | (Some e, w5) \<Rightarrow>
           (Some e, log_exception name ('' Failed to create/update index: '' @ exn_str e) e w5))"
    using assms by (simp add: create_index_script_def configure_logging_eq truthy_getenv Let_def)
  obtain r w5 where t: "create_index_try sv name ?idx ?w4 = (r, w5)"
    by (cases "create_index_try sv name ?idx ?w4")
  have same: "fst (create_index_try sv name ?idx ?w4) = fst (create_index_try sv name ?idx u)"
    by (simp only: create_index_try_result)
  show "fst (create_index_script name env sv w) = fst (create_index_try sv name ?idx u)"
    unfolding same [symmetric] run t by (cases r) simp_all
  show "fst (create_index_script name env sv w) = Some e \<Longrightarrow>
           last (trace (snd (create_index_script name env sv w))) =
             LogException name ('' Failed to create/update index: '' @ exn_str e) e"
    unfolding run t by (cases r) simp_all
qed

lemma create_index_script_logged:
  assumes "fst (create_index_script name env sv w) = Some e"
  shows "\<exists>m. last (trace (snd (create_index_script name env sv w))) = Log name ERROR m
             \<or> last (trace (snd (create_index_script name env sv w))) = LogException name m e"
proof (cases "\<not> unset_or_empty env ''AZURE_SEARCH_ENDPOINT'' \<and> \<not> unset_or_empty env ''AZURE_SEARCH_API_KEY''")
  case True
  then show ?thesis
    using create_index_script_configured(2) [OF _ _ assms] by blast
next
  case False
  then show ?thesis
    by (auto simp add: create_index_script_def configure_logging_eq truthy_getenv Let_def)
qed

lemma ingest_script_logged:
  assumes "fst (ingest_script name env sv w) = Some e"
  shows "\<exists>m. last (trace (snd (ingest_script name env sv w))) = Log name ERROR m
             \<or> last (trace (snd (ingest_script name env sv w))) = LogException name m e"
proof (cases "\<not> unset_or_empty env ''AZURE_SEARCH_ENDPOINT'' \<and> \<not> unset_or_empty env ''AZURE_SEARCH_API_KEY''
    \<and> \<not> unset_or_empty env ''AZURE_SEARCH_INDEX'' \<and> \<not> unset_or_empty env ''AZURE_OPENAI_ENDPOINT''
    \<and> \<not> unset_or_empty env ''AZURE_OPENAI_API_KEY'' \<and> \<not> unset_or_empty env ''AZURE_OPENAI_EMBED_DEPLOYMENT''")
  case True
  then have run: "ingest_script name env sv w =
           ingest_steps sv name (getenv env)
             (emit (Log name DEBUG (''Using index: '' @ fmt (getenv env ''AZURE_SEARCH_INDEX'') @
                                     '', endpoint: '' @ fmt (getenv env ''AZURE_SEARCH_ENDPOINT'')))
                (emit (Log name INFO ''Starting ingestion process'')
                   (snd (configure_logging name ''ingest.log'' w))))"
    using ingest_script_configured by blast
  show ?thesis
    using assms ingest_steps_logged unfolding run by blast
next
  case False
  then show ?thesis
    by (auto simp add: ingest_script_def configure_logging_eq truthy_getenv Let_def)
qed

text \<open>The page itself never ends in an exception: only the start of query.py can raise.\<close>

lemma chat_page_not_raised:
  "fst (chat_page sv g submitted ss w) \<noteq> Raised e"
proof -
  have ga: "\<And>q h u x u'. generate_answer sv g q h u = (Inl x, u') \<Longrightarrow> False"
  proof -
    fix q h u x u'
    assume "generate_answer sv g q h u = (Inl x, u')"
    then have "fst (generate_answer sv g q h u) = Inl x"
      by simp
    then show False
      using generate_answer_returns [of sv g q h u] by auto
  qed
  show ?thesis
    by (auto simp add: chat_page_def Let_def
          split: option.splits prod.splits sum.splits if_splits dest: ga)
qed

lemma query_script_logged:
  assumes "fst (query_script name env sv submitted ss w) = Raised e"
  shows "\<exists>m. last (trace (snd (snd (query_script name env sv submitted ss w)))) = Log name ERROR m"
proof (cases "query_startup name env w")
  case (Pair r w1)
  show ?thesis
  proof (cases r)
    case (Inl e')
    with Pair show ?thesis
      by (auto simp add: query_script_def query_startup_def configure_logging_eq Let_def
            split: if_splits)
  next
    case (Inr g)
    with Pair assms show ?thesis
      using chat_page_not_raised [of sv g submitted ss w1 e]
      by (simp add: query_script_def)
  qed
qed

section \<open>Facts about the chat page\<close>

lemma render_history_simps [simp]:
  "trace (render_history msgs w) = trace w @ rendering msgs"
  "heap (render_history msgs w) = heap w"
  by (induction msgs arbitrary: w) simp_all

lemma filter_is_step_rendering [simp]:
  "filter is_step (rendering msgs) = rendering msgs"
  by (induction msgs) simp_all

lemma rendering_append [simp]:
  "rendering (msgs @ msgs') = rendering msgs @ rendering msgs'"
  by (induction msgs) simp_all

text \<open>With its five variables set, query.py passes both checks and builds its clients.\<close>

lemma query_startup_configured:
  assumes "\<not> unset_or_empty env ''AZURE_OPENAI_ENDPOINT''"
    and "\<not> unset_or_empty env ''AZURE_OPENAI_API_KEY''"
    and "\<not> unset_or_empty env ''AZURE_SEARCH_ENDPOINT''"
    and "\<not> unset_or_empty env ''AZURE_SEARCH_API_KEY''"
    and "\<not> unset_or_empty env ''AZURE_SEARCH_INDEX''"
  shows "\<exists>g w'. query_startup name env w = (Inr g, w')
           \<and> logger g = name
           \<and> AZURE_OPENAI_CHAT_DEPLOYMENT g = getenv_default env ''AZURE_OPENAI_CHAT_DEPLOYMENT'' ''chat''
           \<and> AZURE_OPENAI_EMBED_DEPLOYMENT g = getenv_default env ''AZURE_OPENAI_EMBED_DEPLOYMENT'' ''embed''
           \<and> heap w' = heap w
           \<and> filter is_step (trace w') = filter is_step (trace w)"
  using assms by (simp add: query_startup_def configure_logging_eq truthy_getenv Let_def)

text \<open>A run of the page with nothing submitted renders the history and ends.\<close>

lemma chat_page_idle:
  assumes "ss_chat_history ss = Some h"
  shows "fst (chat_page sv g None ss w) = Finished"
    and "filter is_step (trace (snd (snd (chat_page sv g None ss w)))) =
           filter is_step (trace w) @ rendering (heap w ! h)"
  using assms by (simp_all add: chat_page_def Let_def)

text \<open>
  A run of the page with a text submitted: up to the call of \<open>generate_answer\<close> it
  has rendered the history and nothing else that counts as a step.
\<close>

lemma chat_page_reaches:
  assumes "prompt \<noteq> []"
    and "\<forall>h. ss_chat_history ss = Some h \<longrightarrow> h < length (heap w)"
  shows "\<exists>h u ss1.
           chat_page sv g (Some prompt) ss w =
             (case generate_answer sv g prompt h u of
                (Inl e, w7) \<Rightarrow> (Raised e, ss1, w7)
              | (Inr (_, h'), w7) \<Rightarrow>
                  (RerunRequested, ss1\<lparr>ss_chat_history := Some h'\<rparr>, emit Rerun w7))
           \<and> h < length (heap u)
           \<and> heap u ! h = (case ss_chat_history ss of None \<Rightarrow> [] | Some a \<Rightarrow> heap w ! a)
           \<and> filter is_step (trace u) =
               filter is_step (trace w) @
               rendering (case ss_chat_history ss of None \<Rightarrow> [] | Some a \<Rightarrow> heap w ! a)"
proof (cases "ss_chat_history ss")
  case None
  let ?w3 = "log_info (logger g) ''Initialized empty chat history''
               (snd (new_list (emit (Title (''Client Manual Chatbot '' @ bank))
                                 (emit (SetPageConfig ''Citi'' bank) w))))"
  let ?u = "log_info (logger g) ('' User asked: '' @ prompt)
              (emit (ChatInput (''Ask about the Client Manual'' @ ellipsis)) ?w3)"
  show ?thesis
    apply (rule exI [of _ "length (heap w)"])
    apply (rule exI [of _ ?u])
    apply (rule exI [of _ "ss\<lparr>ss_chat_history := Some (length (heap w))\<rparr>"])
    using None assms(1)
    apply (simp add: chat_page_def Let_def new_list_def split: prod.splits sum.splits)
    done
next
  case (Some h)
  let ?u = "log_info (logger g) ('' User asked: '' @ prompt)
              (emit (ChatInput (''Ask about the Client Manual'' @ ellipsis))
                 (render_history (heap w ! h)
                    (emit (Title (''Client Manual Chatbot '' @ bank))
                       (emit (SetPageConfig ''Citi'' bank) w))))"
  show ?thesis
    apply (rule exI [of _ h])
    apply (rule exI [of _ ?u])
    apply (rule exI [of _ ss])
    using Some assms
    apply (simp add: chat_page_def Let_def split: prod.splits sum.splits)
    done
qed

text \<open>
  A run of the page with a text submitted, when both requests of the retrieval succeed:
  it ends in the rerun, the session keeps the history with the new turn, and the steps
  taken are the rendering of the old history, the three requests and the rerun.
\<close>

lemma chat_page_submit:
  assumes "prompt \<noteq> []"
    and "\<forall>h. ss_chat_history ss = Some h \<longrightarrow> h < length (heap w)"
    and "embeddings_create sv prompt (AZURE_OPENAI_EMBED_DEPLOYMENT g) = Inr (v # vs)"
    and "search sv []
           [\<lparr>vq_kind = ''vector'', vq_vector = v, vq_fields = ''embedding'', vq_k = 10\<rparr>]
           [''content'', ''metadata'', ''doc_id''] = (results, None)"
    and "history = (case ss_chat_history ss of None \<Rightarrow> [] | Some a \<Rightarrow> heap w ! a)"
    and "messages = history @
           [\<lparr>role = ''system'', content = PStr system_instruction\<rparr>,
            \<lparr>role = ''user'',
             content = PStr (''Context:\<newline>'' @
                             join ''\<newline>''
                               (map chunk_of (filter (\<lambda>r. truthy (dict_get r ''content'' PNone)) results)) @
                             ''\<newline>\<newline>Question: '' @ prompt)\<rparr>]"
  shows "\<exists>answer h ss' w'.
           chat_page sv g (Some prompt) ss w = (RerunRequested, ss', w')
           \<and> ss_chat_history ss' = Some h
           \<and> h < length (heap w')
           \<and> heap w' ! h = history @
               [\<lparr>role = ''user'', content = PStr prompt\<rparr>, \<lparr>role = ''assistant'', content = answer\<rparr>]
           \<and> filter is_step (trace w') =
               filter is_step (trace w) @ rendering history @
                 [EmbeddingsCreate prompt (AZURE_OPENAI_EMBED_DEPLOYMENT g),
                  Search []
                    [\<lparr>vq_kind = ''vector'', vq_vector = v, vq_fields = ''embedding'', vq_k = 10\<rparr>]
                    [''content'', ''metadata'', ''doc_id''],
                  ChatCompletionsCreate (AZURE_OPENAI_CHAT_DEPLOYMENT g) messages 0.2 1000,
                  Rerun]
           \<and> (\<forall>a rest. chat_completions_create sv (AZURE_OPENAI_CHAT_DEPLOYMENT g) messages 0.2 1000
                          = Inr (a # rest) \<longrightarrow> answer = a)"
proof -
  let ?chunks = "map chunk_of (filter (\<lambda>r. truthy (dict_get r ''content'' PNone)) results)"
  from chat_page_reaches [OF assms(1,2), of sv g]
  obtain h u ss1 where
    cp: "chat_page sv g (Some prompt) ss w =
           (case generate_answer sv g prompt h u of
              (Inl e, w7) \<Rightarrow> (Raised e, ss1, w7)
            | (Inr (_, h'), w7) \<Rightarrow>
                (RerunRequested, ss1\<lparr>ss_chat_history := Some h'\<rparr>, emit Rerun w7))"
    and hlt: "h < length (heap u)"
    and hist: "heap u ! h = history"
    and tr: "filter is_step (trace u) = filter is_step (trace w) @ rendering history"
    unfolding assms(5) by blast
  have c: "fst (get_top_chunks sv g prompt 10 u) = Inr ?chunks"
    by (simp add: get_top_chunks_ok [OF assms(3,4)])
  have gt: "filter is_step (trace (snd (get_top_chunks sv g prompt 10
              (log_info (logger g) (''Generating answer for user query: '' @ prompt) u)))) =
            filter is_step (trace u) @
              [EmbeddingsCreate prompt (AZURE_OPENAI_EMBED_DEPLOYMENT g),
               Search []
                 [\<lparr>vq_kind = ''vector'', vq_vector = v, vq_fields = ''embedding'', vq_k = 10\<rparr>]
                 [''content'', ''metadata'', ''doc_id'']]"
    by (simp add: get_top_chunks_ok [OF assms(3,4)])
  from generate_answer_unfold [OF hlt c]
  obtain answer post where
    res: "fst (generate_answer sv g prompt h u) = Inr (answer, h)"
    and hp: "heap (snd (generate_answer sv g prompt h u)) =
           (heap u)[h := heap u ! h @
              [\<lparr>role = ''user'', content = PStr prompt\<rparr>,
               \<lparr>role = ''assistant'', content = answer\<rparr>]]
           @ [heap u ! h @
              [\<lparr>role = ''system'', content = PStr system_instruction\<rparr>,
               \<lparr>role = ''user'',
                content = PStr (''Context:\<newline>'' @ join ''\<newline>'' ?chunks @
                                ''\<newline>\<newline>Question: '' @ prompt)\<rparr>]]"
    and trc: "trace (snd (generate_answer sv g prompt h u)) =
               trace (snd (get_top_chunks sv g prompt 10
                        (log_info (logger g) (''Generating answer for user query: '' @ prompt) u)))
               @ ChatCompletionsCreate (AZURE_OPENAI_CHAT_DEPLOYMENT g)
                   (heap u ! h @
                     [\<lparr>role = ''system'', content = PStr system_instruction\<rparr>,
                      \<lparr>role = ''user'',
                       content = PStr (''Context:\<newline>'' @ join ''\<newline>'' ?chunks @
                                       ''\<newline>\<newline>Question: '' @ prompt)\<rparr>])
                   0.2 1000 # post"
    and post: "filter is_step post = []"
    and rel: "(case chat_completions_create sv (AZURE_OPENAI_CHAT_DEPLOYMENT g)
                     (heap u ! h @
                       [\<lparr>role = ''system'', content = PStr system_instruction\<rparr>,
                        \<lparr>role = ''user'',
                         content = PStr (''Context:\<newline>'' @ join ''\<newline>'' ?chunks @
                                         ''\<newline>\<newline>Question: '' @ prompt)\<rparr>])
                     0.2 1000 of
                 Inl e \<Rightarrow>
                   answer = PStr (''Error generating response: '' @ exn_str e)
                   \<and> post = [LogException (logger g) ''Failed to generate AI response'' e]
               | Inr [] \<Rightarrow>
                   answer = PStr (''Error generating response: '' @ exn_str IndexError)
                   \<and> post = [LogException (logger g) ''Failed to generate AI response'' IndexError]
               | Inr (a # rest) \<Rightarrow>
                   answer = a \<and> post = [Log (logger g) INFO ''Successfully generated AI response''])"
    by blast
  obtain w7 where ga: "generate_answer sv g prompt h u = (Inr (answer, h), w7)"
    using res by (cases "generate_answer sv g prompt h u") simp
  note hp = hp [unfolded ga snd_conv]
  note trc = trc [unfolded ga snd_conv]
  have page: "chat_page sv g (Some prompt) ss w =
                (RerunRequested, ss1\<lparr>ss_chat_history := Some h\<rparr>, emit Rerun w7)"
    unfolding cp by (simp add: ga)
  have msgs: "heap u ! h @
                     [\<lparr>role = ''system'', content = PStr system_instruction\<rparr>,
                      \<lparr>role = ''user'',
                       content = PStr (''Context:\<newline>'' @ join ''\<newline>'' ?chunks @
                                       ''\<newline>\<newline>Question: '' @ prompt)\<rparr>] = messages"
    unfolding assms(6) hist by simp
  have 1: "ss_chat_history (ss1\<lparr>ss_chat_history := Some h\<rparr>) = Some h"
    by simp
  have 2: "h < length (heap (emit Rerun w7))"
    using hlt by (simp add: hp)
  have 3: "heap (emit Rerun w7) ! h = history @
               [\<lparr>role = ''user'', content = PStr prompt\<rparr>, \<lparr>role = ''assistant'', content = answer\<rparr>]"
    using hlt hist by (simp add: hp nth_append)
  have 4: "filter is_step (trace (emit Rerun w7)) =
               filter is_step (trace w) @ rendering history @
                 [EmbeddingsCreate prompt (AZURE_OPENAI_EMBED_DEPLOYMENT g),
                  Search []
                    [\<lparr>vq_kind = ''vector'', vq_vector = v, vq_fields = ''embedding'', vq_k = 10\<rparr>]
                    [''content'', ''metadata'', ''doc_id''],
                  ChatCompletionsCreate (AZURE_OPENAI_CHAT_DEPLOYMENT g) messages 0.2 1000,
                  Rerun]"
  proof -
    have a: "filter is_step (trace (emit Rerun w7)) = filter is_step (trace w7) @ [Rerun]"
      by simp
    have b: "filter is_step (trace w7) =
        filter is_step (trace (snd (get_top_chunks sv g prompt 10
              (log_info (logger g) (''Generating answer for user query: '' @ prompt) u)))) @
        [ChatCompletionsCreate (AZURE_OPENAI_CHAT_DEPLOYMENT g) messages 0.2 1000]"
      unfolding trc msgs by (simp add: post)
    show ?thesis
      unfolding a b gt tr by simp
  qed
  have 5: "\<forall>a rest. chat_completions_create sv (AZURE_OPENAI_CHAT_DEPLOYMENT g) messages 0.2 1000
                          = Inr (a # rest) \<longrightarrow> answer = a"
    using rel unfolding msgs by auto
  from page 1 2 3 4 5 show ?thesis
    by blast
qed

section \<open>Properties of setup_logger\<close>

lemma getLogger_put_logger:
  "getLogger n (put_logger m l st) = (if n = m then l else getLogger n st)"
  by (simp add: getLogger_def put_logger_def)

lemma getLogger_capture_warnings:
  "getLogger n (st\<lparr>capture_warnings := b\<rparr>) = getLogger n st"
  by (simp add: getLogger_def)

lemma setup_logger_with_handlers:
  assumes "lg_handlers (getLogger name st) \<noteq> []"
  shows "setup_logger name log_file level st =
           (name, put_logger name ((getLogger name st)\<lparr>lg_level := level, lg_propagate := False\<rparr>) st)"
  using assms by (simp add: setup_logger_def Let_def)

lemma setup_logger_without_handlers:
  assumes "lg_handlers (getLogger name st) = []"
  shows "setup_logger name log_file level st =
           (name,
            (put_logger name
               ((getLogger name st)
                  \<lparr>lg_level := level, lg_propagate := False,
                   lg_handlers := [file_handler (path_join (LOG_DIR st) log_file) level,
                                   console_handler (console_supports_utf8 st) level]\<rparr>) st)
            \<lparr>capture_warnings := True\<rparr>)"
  using assms by (simp add: setup_logger_def Let_def)

text \<open>
  C10, as stated, fails: a second call with another level returns the logger with its
  level changed, since \<open>setLevel\<close> and \<open>propagate = False\<close> come before the test on
  the handlers. After \<open>setup_logger("app", "a.log", INFO)\<close> the logger has handlers
  and level 20; \<open>setup_logger("app", "b.log", DEBUG)\<close> leaves it with level 10.
\<close>

theorem setup_logger_unchanged_counterexample:
  "lg_handlers (getLogger ''app'' (snd (setup_logger ''app'' ''a.log'' INFO fresh_logging))) \<noteq> []
   \<and> getLogger ''app''
        (snd (setup_logger ''app'' ''b.log'' DEBUG (snd (setup_logger ''app'' ''a.log'' INFO fresh_logging))))
      \<noteq> getLogger ''app'' (snd (setup_logger ''app'' ''a.log'' INFO fresh_logging))"
  by (simp add: setup_logger_def Let_def getLogger_def put_logger_def fresh_logging_def
        new_logger_def INFO_def DEBUG_def)

text \<open>
  C10, amended. When the named logger already has handlers, \<open>setup_logger\<close> returns
  that logger with the same handlers (none added, none changed, whatever \<open>log_file\<close>
  and \<open>level\<close> are), no other logger and no other part of the logging state changes,
  and the logger's own level is set to \<open>level\<close> and its propagate flag to false. When
  it has no handlers, the call attaches exactly two: first the rotating file handler
  for \<open>LOG_DIR / log_file\<close>, then the console handler, both at \<open>level\<close>. Hence a
  second call never adds a handler to what a first call attached.
\<close>

theorem setup_logger_idempotent_handlers:
  "(lg_handlers (getLogger name st) \<noteq> [] \<longrightarrow>
      fst (setup_logger name log_file level st) = name
      \<and> lg_handlers (getLogger name (snd (setup_logger name log_file level st)))
          = lg_handlers (getLogger name st)
      \<and> lg_level (getLogger name (snd (setup_logger name log_file level st))) = level
      \<and> lg_propagate (getLogger name (snd (setup_logger name log_file level st))) = False
      \<and> (\<forall>n. n \<noteq> name \<longrightarrow> loggers (snd (setup_logger name log_file level st)) n = loggers st n)
      \<and> capture_warnings (snd (setup_logger name log_file level st)) = capture_warnings st)
   \<and> (lg_handlers (getLogger name st) = [] \<longrightarrow>
      fst (setup_logger name log_file level st) = name
      \<and> lg_handlers (getLogger name (snd (setup_logger name log_file level st)))
          = [file_handler (path_join (LOG_DIR st) log_file) level,
             console_handler (console_supports_utf8 st) level]
      \<and> h_kind (file_handler (path_join (LOG_DIR st) log_file) level)
          = RotatingFileHandler (path_join (LOG_DIR st) log_file) (5 * 1024 * 1024) 3 ''utf-8''
      \<and> h_kind (console_handler (console_supports_utf8 st) level) = StreamHandler ''sys.stdout'')
   \<and> lg_handlers (getLogger name
         (snd (setup_logger name log_file' level' (snd (setup_logger name log_file level st)))))
       = lg_handlers (getLogger name (snd (setup_logger name log_file level st)))"
proof (cases "lg_handlers (getLogger name st) = []")
  case True
  have after: "lg_handlers (getLogger name (snd (setup_logger name log_file level st))) \<noteq> []"
    by (simp add: setup_logger_without_handlers [OF True] getLogger_put_logger
          getLogger_capture_warnings)
  show ?thesis
    using True
    by (simp add: setup_logger_with_handlers [OF after] getLogger_put_logger)
       (simp add: setup_logger_without_handlers [OF True] getLogger_def put_logger_def
          file_handler_def console_handler_def)
next
  case False
  have after: "lg_handlers (getLogger name (snd (setup_logger name log_file level st))) \<noteq> []"
    using False by (simp add: setup_logger_with_handlers [OF False] getLogger_put_logger)
  show ?thesis
    using False
    by (simp add: setup_logger_with_handlers [OF after] getLogger_put_logger)
       (simp add: setup_logger_with_handlers [OF False] getLogger_def put_logger_def)
qed

theorem setup_logger_idempotent_handlers_witness:
  "lg_handlers (getLogger ''app'' fresh_logging) = []
   \<and> lg_handlers (getLogger ''app'' (snd (setup_logger ''app'' ''a.log'' INFO fresh_logging)))
       = [file_handler ''/app/logs/a.log'' 20, console_handler True 20]
   \<and> lg_handlers (getLogger ''app'' (snd (setup_logger ''app'' ''a.log'' INFO fresh_logging))) \<noteq> []
   \<and> lg_handlers (getLogger ''app''
        (snd (setup_logger ''app'' ''b.log'' DEBUG (snd (setup_logger ''app'' ''a.log'' INFO fresh_logging)))))
       = [file_handler ''/app/logs/a.log'' 20, console_handler True 20]
   \<and> lg_level (getLogger ''app''
        (snd (setup_logger ''app'' ''b.log'' DEBUG (snd (setup_logger ''app'' ''a.log'' INFO fresh_logging)))))
       = 10"
proof -
  have empty: "lg_handlers (getLogger ''app'' fresh_logging) = []"
    by (simp add: getLogger_def fresh_logging_def new_logger_def)
  have utf8: "console_supports_utf8 fresh_logging"
    by code_simp
  have path: "path_join (LOG_DIR fresh_logging) ''a.log'' = ''/app/logs/a.log''"
    by (simp add: path_join_def fresh_logging_def)
  note first = setup_logger_idempotent_handlers
    [of "''app''" fresh_logging "''a.log''" INFO "''b.log''" DEBUG]
  have handlers1:
    "lg_handlers (getLogger ''app'' (snd (setup_logger ''app'' ''a.log'' INFO fresh_logging)))
       = [file_handler ''/app/logs/a.log'' 20, console_handler True 20]"
    using first empty utf8 path by (simp add: INFO_def)
  then have nonempty:
    "lg_handlers (getLogger ''app'' (snd (setup_logger ''app'' ''a.log'' INFO fresh_logging))) \<noteq> []"
    by simp
  note second = setup_logger_idempotent_handlers
    [of "''app''" "snd (setup_logger ''app'' ''a.log'' INFO fresh_logging)" "''b.log''" DEBUG "''c.log''" INFO]
  show ?thesis
    using empty handlers1 nonempty second by (simp add: DEBUG_def)
qed

section \<open>Properties of get_top_chunks\<close>

text \<open>
  C9. \<open>get_top_chunks\<close> always returns a list and never an exception. Whatever is
  raised inside its \<open>try\<close> block is caught, logged with \<open>logger.exception\<close>, and
  answered with the empty list: an exception of the embedding request, the
  \<open>IndexError\<close> of \<open>data[0]\<close> on an empty answer, and an exception of the search,
  raised by the request or while its results are read.
\<close>

theorem get_top_chunks_never_raises:
  "(\<exists>chunks. fst (get_top_chunks sv g query top_k w) = Inr chunks)
   \<and> (embeddings_create sv query (AZURE_OPENAI_EMBED_DEPLOYMENT g) = Inl e \<longrightarrow>
        get_top_chunks sv g query top_k w =
          (Inr [],
           w\<lparr>trace := trace w @
              [Log (logger g) INFO ('' Retrieving top '' @ str_int top_k @ '' chunks for query: '' @ query),
               EmbeddingsCreate query (AZURE_OPENAI_EMBED_DEPLOYMENT g),
               LogException (logger g) ''Error occurred during vector search'' e]\<rparr>))
   \<and> (embeddings_create sv query (AZURE_OPENAI_EMBED_DEPLOYMENT g) = Inr [] \<longrightarrow>
        get_top_chunks sv g query top_k w =
          (Inr [],
           w\<lparr>trace := trace w @
              [Log (logger g) INFO ('' Retrieving top '' @ str_int top_k @ '' chunks for query: '' @ query),
               EmbeddingsCreate query (AZURE_OPENAI_EMBED_DEPLOYMENT g),
               LogException (logger g) ''Error occurred during vector search'' IndexError]\<rparr>))
   \<and> (embeddings_create sv query (AZURE_OPENAI_EMBED_DEPLOYMENT g) = Inr (v # vs)
        \<and> search sv []
             [\<lparr>vq_kind = ''vector'', vq_vector = v, vq_fields = ''embedding'', vq_k = top_k\<rparr>]
             [''content'', ''metadata'', ''doc_id''] = (results, Some e') \<longrightarrow>
        get_top_chunks sv g query top_k w =
          (Inr [],
           w\<lparr>trace := trace w @
              [Log (logger g) INFO ('' Retrieving top '' @ str_int top_k @ '' chunks for query: '' @ query),
               EmbeddingsCreate query (AZURE_OPENAI_EMBED_DEPLOYMENT g),
               Search []
                 [\<lparr>vq_kind = ''vector'', vq_vector = v, vq_fields = ''embedding'', vq_k = top_k\<rparr>]
                 [''content'', ''metadata'', ''doc_id''],
               LogException (logger g) ''Error occurred during vector search'' e']\<rparr>))"
proof (intro conjI impI)
  show "\<exists>chunks. fst (get_top_chunks sv g query top_k w) = Inr chunks"
    by (rule get_top_chunks_returns)
next
  assume "embeddings_create sv query (AZURE_OPENAI_EMBED_DEPLOYMENT g) = Inl e"
  then show "get_top_chunks sv g query top_k w =
          (Inr [],
           w\<lparr>trace := trace w @
              [Log (logger g) INFO ('' Retrieving top '' @ str_int top_k @ '' chunks for query: '' @ query),
               EmbeddingsCreate query (AZURE_OPENAI_EMBED_DEPLOYMENT g),
               LogException (logger g) ''Error occurred during vector search'' e]\<rparr>)"
    by (simp add: get_top_chunks_def try_embedding_raises emit_def)
next
  assume "embeddings_create sv query (AZURE_OPENAI_EMBED_DEPLOYMENT g) = Inr []"
  then show "get_top_chunks sv g query top_k w =
          (Inr [],
           w\<lparr>trace := trace w @
              [Log (logger g) INFO ('' Retrieving top '' @ str_int top_k @ '' chunks for query: '' @ query),
               EmbeddingsCreate query (AZURE_OPENAI_EMBED_DEPLOYMENT g),
               LogException (logger g) ''Error occurred during vector search'' IndexError]\<rparr>)"
    by (simp add: get_top_chunks_def try_embedding_empty emit_def)
next
  assume "embeddings_create sv query (AZURE_OPENAI_EMBED_DEPLOYMENT g) = Inr (v # vs)
        \<and> search sv []
             [\<lparr>vq_kind = ''vector'', vq_vector = v, vq_fields = ''embedding'', vq_k = top_k\<rparr>]
             [''content'', ''metadata'', ''doc_id''] = (results, Some e')"
  then show "get_top_chunks sv g query top_k w =
          (Inr [],
           w\<lparr>trace := trace w @
              [Log (logger g) INFO ('' Retrieving top '' @ str_int top_k @ '' chunks for query: '' @ query),
               EmbeddingsCreate query (AZURE_OPENAI_EMBED_DEPLOYMENT g),
               Search []
                 [\<lparr>vq_kind = ''vector'', vq_vector = v, vq_fields = ''embedding'', vq_k = top_k\<rparr>]
                 [''content'', ''metadata'', ''doc_id''],
               LogException (logger g) ''Error occurred during vector search'' e']\<rparr>)"
    by (simp add: get_top_chunks_def try_search_raises emit_def)
qed

theorem get_top_chunks_never_raises_witness:
  "embeddings_create embed_fails ''fees?'' (AZURE_OPENAI_EMBED_DEPLOYMENT globals0) = Inl connection_error
   \<and> fst (get_top_chunks embed_fails globals0 ''fees?'' 10 world0) = Inr []
   \<and> last (trace (snd (get_top_chunks embed_fails globals0 ''fees?'' 10 world0)))
       = LogException ''__main__'' ''Error occurred during vector search'' connection_error
   \<and> embeddings_create embed_empty ''fees?'' (AZURE_OPENAI_EMBED_DEPLOYMENT globals0) = Inr []
   \<and> fst (get_top_chunks embed_empty globals0 ''fees?'' 10 world0) = Inr []
   \<and> last (trace (snd (get_top_chunks embed_empty globals0 ''fees?'' 10 world0)))
       = LogException ''__main__'' ''Error occurred during vector search'' IndexError
   \<and> embeddings_create search_fails ''fees?'' (AZURE_OPENAI_EMBED_DEPLOYMENT globals0) = Inr [[1, 0, 2]]
   \<and> search search_fails []
        [\<lparr>vq_kind = ''vector'', vq_vector = [1, 0, 2], vq_fields = ''embedding'', vq_k = 10\<rparr>]
        [''content'', ''metadata'', ''doc_id''] = ([result1], Some connection_error)
   \<and> fst (get_top_chunks search_fails globals0 ''fees?'' 10 world0) = Inr []
   \<and> last (trace (snd (get_top_chunks search_fails globals0 ''fees?'' 10 world0)))
       = LogException ''__main__'' ''Error occurred during vector search'' connection_error"
proof -
  have a: "embeddings_create embed_fails ''fees?'' (AZURE_OPENAI_EMBED_DEPLOYMENT globals0) = Inl connection_error"
    by (simp add: embed_fails_def)
  have b: "embeddings_create embed_empty ''fees?'' (AZURE_OPENAI_EMBED_DEPLOYMENT globals0) = Inr []"
    by (simp add: embed_empty_def)
  have c: "embeddings_create search_fails ''fees?'' (AZURE_OPENAI_EMBED_DEPLOYMENT globals0) = Inr ([1, 0, 2] # [])"
    by (simp add: search_fails_def good_services_def)
  have d: "search search_fails []
        [\<lparr>vq_kind = ''vector'', vq_vector = [1, 0, 2], vq_fields = ''embedding'', vq_k = 10\<rparr>]
        [''content'', ''metadata'', ''doc_id''] = ([result1], Some connection_error)"
    by (simp add: search_fails_def)
  have lg: "logger globals0 = ''__main__''"
    by (simp add: globals0_def)
  show ?thesis
    using a b c d lg
      get_top_chunks_never_raises [of embed_fails globals0 "''fees?''" 10 world0 connection_error]
      get_top_chunks_never_raises [of embed_empty globals0 "''fees?''" 10 world0]
      get_top_chunks_never_raises [of search_fails globals0 "''fees?''" 10 world0 _ "[1, 0, 2]" "[]" "[result1]" connection_error]
    by simp
qed




section \<open>Properties of generate_answer\<close>

text \<open>
  C1. For every user query and every prior chat history (a list that exists in the
  heap), \<open>generate_answer\<close> sends to the chat-completion API exactly this list of
  messages: the prior history, then the system instruction, then one user message whose
  content is \<open>Context:\<close>, the chunks that \<open>get_top_chunks\<close> returns for the query
  joined with newlines, and \<open>Question:\<close> with the user's query. The list sent is built
  in a new list object, a copy of the history: it is not the caller's list, and after
  the call it holds exactly the messages sent.
\<close>

theorem generate_answer_prompt:
  assumes "chat_history < length (heap w)"
  shows "\<exists>context_chunks messages.
           fst (get_top_chunks sv g user_query 10 w) = Inr context_chunks
           \<and> messages = heap w ! chat_history @
               [\<lparr>role = ''system'', content = PStr system_instruction\<rparr>,
                \<lparr>role = ''user'',
                 content = PStr (''Context:\<newline>'' @ join ''\<newline>'' context_chunks @
                                 ''\<newline>\<newline>Question: '' @ user_query)\<rparr>]
           \<and> chat_calls (trace (snd (generate_answer sv g user_query chat_history w))) =
               chat_calls (trace w) @ [(AZURE_OPENAI_CHAT_DEPLOYMENT g, messages)]
           \<and> length (heap (snd (generate_answer sv g user_query chat_history w))) = Suc (length (heap w))
           \<and> heap (snd (generate_answer sv g user_query chat_history w)) ! length (heap w) = messages
           \<and> length (heap w) \<noteq> chat_history"
proof -
  obtain context_chunks where c: "fst (get_top_chunks sv g user_query 10 w) = Inr context_chunks"
    using get_top_chunks_returns by blast
  from generate_answer_unfold [OF assms c]
  obtain answer post where
    hp: "heap (snd (generate_answer sv g user_query chat_history w)) =
           (heap w)[chat_history := heap w ! chat_history @
              [\<lparr>role = ''user'', content = PStr user_query\<rparr>,
               \<lparr>role = ''assistant'', content = answer\<rparr>]]
           @ [heap w ! chat_history @
              [\<lparr>role = ''system'', content = PStr system_instruction\<rparr>,
               \<lparr>role = ''user'',
                content = PStr (''Context:\<newline>'' @ join ''\<newline>'' context_chunks @
                                ''\<newline>\<newline>Question: '' @ user_query)\<rparr>]]"
    and tr: "trace (snd (generate_answer sv g user_query chat_history w)) =
               trace (snd (get_top_chunks sv g user_query 10
                        (log_info (logger g) (''Generating answer for user query: '' @ user_query) w)))
               @ ChatCompletionsCreate (AZURE_OPENAI_CHAT_DEPLOYMENT g)
                   (heap w ! chat_history @
                     [\<lparr>role = ''system'', content = PStr system_instruction\<rparr>,
                      \<lparr>role = ''user'',
                       content = PStr (''Context:\<newline>'' @ join ''\<newline>'' context_chunks @
                                       ''\<newline>\<newline>Question: '' @ user_query)\<rparr>])
                   0.2 1000 # post"
    and post: "chat_calls post = []"
    by blast
  have calls: "chat_calls (trace (snd (generate_answer sv g user_query chat_history w))) =
      chat_calls (trace w) @
      [(AZURE_OPENAI_CHAT_DEPLOYMENT g,
        heap w ! chat_history @
          [\<lparr>role = ''system'', content = PStr system_instruction\<rparr>,
           \<lparr>role = ''user'',
            content = PStr (''Context:\<newline>'' @ join ''\<newline>'' context_chunks @
                            ''\<newline>\<newline>Question: '' @ user_query)\<rparr>])]"
    by (simp only: tr chat_calls_append get_top_chunks_no_chat) (simp add: post)
  have len: "length (heap (snd (generate_answer sv g user_query chat_history w))) = Suc (length (heap w))"
    by (simp only: hp) simp
  have at: "heap (snd (generate_answer sv g user_query chat_history w)) ! length (heap w) =
      heap w ! chat_history @
          [\<lparr>role = ''system'', content = PStr system_instruction\<rparr>,
           \<lparr>role = ''user'',
            content = PStr (''Context:\<newline>'' @ join ''\<newline>'' context_chunks @
                            ''\<newline>\<newline>Question: '' @ user_query)\<rparr>]"
    by (simp only: hp) (simp add: nth_append)
  from c calls len at assms show ?thesis
    by blast
qed

theorem generate_answer_prompt_witness:
  "(0::nat) < length (heap world1)
   \<and> chat_calls (trace (snd (generate_answer good_services globals0 ''fees?'' 0 world1))) =
       [(PStr ''chat'',
         [\<lparr>role = ''user'', content = PStr ''hi''\<rparr>,
          \<lparr>role = ''assistant'', content = PStr ''Hello.''\<rparr>,
          \<lparr>role = ''system'', content = PStr system_instruction\<rparr>,
          \<lparr>role = ''user'',
           content = PStr (''Context:\<newline>Fees are in section 4.\<newline>(Source: manual.pdf)\<newline>'' @
                           ''Accounts close after 90 days.\<newline>(Source: d3)'' @
                           ''\<newline>\<newline>Question: fees?'')\<rparr>])]"
proof -
  have h: "(0::nat) < length (heap world1)"
    by (simp add: world1_def)
  have c: "fst (get_top_chunks good_services globals0 ''fees?'' 10 world1) =
             Inr [''Fees are in section 4.\<newline>(Source: manual.pdf)'',
                  ''Accounts close after 90 days.\<newline>(Source: d3)'']"
    by (simp add: get_top_chunks_def get_top_chunks_try_def good_services_def globals0_def
          index0_def Let_def chunk_of_def dict_get_def py_or_def result1_def result2_def result3_def)
  have old: "heap world1 ! 0 = [\<lparr>role = ''user'', content = PStr ''hi''\<rparr>,
                                \<lparr>role = ''assistant'', content = PStr ''Hello.''\<rparr>]"
    by (simp add: world1_def)
  have t: "trace world1 = []"
    by (simp add: world1_def world0_def)
  have m: "AZURE_OPENAI_CHAT_DEPLOYMENT globals0 = PStr ''chat''"
    by (simp add: globals0_def)
  from generate_answer_prompt [OF h, of good_services globals0 "''fees?''"]
  show ?thesis
    using h by (auto simp add: c old t m)
qed



text \<open>
  C8. For every call \<open>generate_answer(user_query, chat_history)\<close> on a list that
  exists, the list returned is the caller's list object; that list is changed only by
  two entries appended at its end, first the user's query, then the returned answer as
  the assistant's message; every other list that existed before the call is unchanged.
  Neither appended entry is the system instruction or the user message that carries
  the context: those two go into the copy only.
\<close>

theorem generate_answer_history:
  assumes "chat_history < length (heap w)"
  shows "\<exists>answer.
           fst (generate_answer sv g user_query chat_history w) = Inr (answer, chat_history)
           \<and> heap (snd (generate_answer sv g user_query chat_history w)) ! chat_history =
               heap w ! chat_history @
                 [\<lparr>role = ''user'', content = PStr user_query\<rparr>,
                  \<lparr>role = ''assistant'', content = answer\<rparr>]
           \<and> (\<forall>a < length (heap w). a \<noteq> chat_history \<longrightarrow>
                 heap (snd (generate_answer sv g user_query chat_history w)) ! a = heap w ! a)
           \<and> \<lparr>role = ''system'', content = PStr system_instruction\<rparr>
                 \<notin> set (drop (length (heap w ! chat_history))
                            (heap (snd (generate_answer sv g user_query chat_history w)) ! chat_history))
           \<and> (\<forall>context_text.
                 \<lparr>role = ''user'',
                  content = PStr (''Context:\<newline>'' @ context_text @
                                  ''\<newline>\<newline>Question: '' @ user_query)\<rparr>
                 \<notin> set (drop (length (heap w ! chat_history))
                            (heap (snd (generate_answer sv g user_query chat_history w)) ! chat_history)))"
proof -
  obtain context_chunks where c: "fst (get_top_chunks sv g user_query 10 w) = Inr context_chunks"
    using get_top_chunks_returns by blast
  from generate_answer_unfold [OF assms c]
  obtain answer where
    res: "fst (generate_answer sv g user_query chat_history w) = Inr (answer, chat_history)"
    and hp: "heap (snd (generate_answer sv g user_query chat_history w)) =
           (heap w)[chat_history := heap w ! chat_history @
              [\<lparr>role = ''user'', content = PStr user_query\<rparr>,
               \<lparr>role = ''assistant'', content = answer\<rparr>]]
           @ [heap w ! chat_history @
              [\<lparr>role = ''system'', content = PStr system_instruction\<rparr>,
               \<lparr>role = ''user'',
                content = PStr (''Context:\<newline>'' @ join ''\<newline>'' context_chunks @
                                ''\<newline>\<newline>Question: '' @ user_query)\<rparr>]]"
    by blast
  have own: "heap (snd (generate_answer sv g user_query chat_history w)) ! chat_history =
               heap w ! chat_history @
                 [\<lparr>role = ''user'', content = PStr user_query\<rparr>,
                  \<lparr>role = ''assistant'', content = answer\<rparr>]"
    using assms by (simp only: hp) (simp add: nth_append)
  have others: "\<forall>a < length (heap w). a \<noteq> chat_history \<longrightarrow>
                 heap (snd (generate_answer sv g user_query chat_history w)) ! a = heap w ! a"
    by (simp only: hp) (simp add: nth_append)
  have longer: "\<And>context_text. PStr (''Context:\<newline>'' @ context_text @
                                  ''\<newline>\<newline>Question: '' @ user_query) \<noteq> PStr user_query"
  proof
    fix context_text
    assume "PStr (''Context:\<newline>'' @ context_text @ ''\<newline>\<newline>Question: '' @ user_query)
              = PStr user_query"
    then have "length (''Context:\<newline>'' @ context_text @ ''\<newline>\<newline>Question: '' @ user_query)
              = length user_query"
      by simp
    then show False
      by simp
  qed
  have no_sys: "\<lparr>role = ''system'', content = PStr system_instruction\<rparr>
                 \<notin> set (drop (length (heap w ! chat_history))
                            (heap (snd (generate_answer sv g user_query chat_history w)) ! chat_history))"
    by (simp only: own) simp
  have no_ctx: "\<forall>context_text.
                 \<lparr>role = ''user'',
                  content = PStr (''Context:\<newline>'' @ context_text @
                                  ''\<newline>\<newline>Question: '' @ user_query)\<rparr>
                 \<notin> set (drop (length (heap w ! chat_history))
                            (heap (snd (generate_answer sv g user_query chat_history w)) ! chat_history))"
    using longer by (simp only: own) simp
  from res own others no_sys no_ctx show ?thesis
    by blast
qed

theorem generate_answer_history_witness:
  "(0::nat) < length (heap world1)
   \<and> fst (generate_answer good_services globals0 ''fees?'' 0 world1) = Inr (PStr ''See section 4.'', 0)
   \<and> heap (snd (generate_answer good_services globals0 ''fees?'' 0 world1)) ! 0 =
       [\<lparr>role = ''user'', content = PStr ''hi''\<rparr>,
        \<lparr>role = ''assistant'', content = PStr ''Hello.''\<rparr>,
        \<lparr>role = ''user'', content = PStr ''fees?''\<rparr>,
        \<lparr>role = ''assistant'', content = PStr ''See section 4.''\<rparr>]"
proof -
  have h: "(0::nat) < length (heap world1)"
    by (simp add: world1_def)
  have old: "heap world1 ! 0 = [\<lparr>role = ''user'', content = PStr ''hi''\<rparr>,
                                \<lparr>role = ''assistant'', content = PStr ''Hello.''\<rparr>]"
    by (simp add: world1_def)
  have a: "fst (generate_answer good_services globals0 ''fees?'' 0 world1) = Inr (PStr ''See section 4.'', 0)"
    by (simp add: generate_answer_def get_top_chunks_def get_top_chunks_try_def chat_try_def
          good_services_def index0_def Let_def deepcopy_def split: prod.splits)
  from generate_answer_history [OF h, of good_services globals0 "''fees?''"]
  show ?thesis
    using h by (auto simp add: a old)
qed

section \<open>Properties of the scripts\<close>

text \<open>
  C5. At the start of each script, when a required configuration variable is unset or
  empty, the script logs one error and raises \<open>ValueError\<close>, and it has done nothing
  else that shows in the trace: no client is constructed and no service is contacted.
  The required variables are those read without a default: the search endpoint and key
  in create_index.py; these two, the index name, the OpenAI endpoint and key and the
  embedding deployment in ingest.py; the search endpoint, key and index name and the
  OpenAI endpoint and key in query.py.
\<close>

theorem missing_configuration_raises:
  "(unset_or_empty env ''AZURE_SEARCH_ENDPOINT'' \<or> unset_or_empty env ''AZURE_SEARCH_API_KEY'' \<longrightarrow>
      create_index_script name env isv w =
        (Some (ValueError ''Azure Search endpoint and key must be set in environment variables''),
         snd (configure_logging name ''index.log'' w)
           \<lparr>trace := trace w @ [Log name ERROR '' Missing Azure Search configuration in .env'']\<rparr>))
   \<and> (unset_or_empty env ''AZURE_SEARCH_ENDPOINT'' \<or> unset_or_empty env ''AZURE_SEARCH_API_KEY''
        \<or> unset_or_empty env ''AZURE_SEARCH_INDEX'' \<or> unset_or_empty env ''AZURE_OPENAI_ENDPOINT''
        \<or> unset_or_empty env ''AZURE_OPENAI_API_KEY'' \<or> unset_or_empty env ''AZURE_OPENAI_EMBED_DEPLOYMENT'' \<longrightarrow>
      (\<exists>msg logged.
         ingest_script name env gsv w =
           (Some (ValueError msg),
            snd (configure_logging name ''ingest.log'' w)\<lparr>trace := trace w @ [Log name ERROR logged]\<rparr>)))
   \<and> (unset_or_empty env ''AZURE_OPENAI_ENDPOINT'' \<or> unset_or_empty env ''AZURE_OPENAI_API_KEY''
        \<or> unset_or_empty env ''AZURE_SEARCH_ENDPOINT'' \<or> unset_or_empty env ''AZURE_SEARCH_API_KEY''
        \<or> unset_or_empty env ''AZURE_SEARCH_INDEX'' \<longrightarrow>
      (\<exists>msg logged.
         query_script name env qsv submitted ss w =
           (Raised (ValueError msg), ss,
            snd (configure_logging name ''chat.log'' w)\<lparr>trace := trace w @ [Log name ERROR logged]\<rparr>)))"
proof -
  have t: "\<And>k. truthy (getenv env k) = (\<not> unset_or_empty env k)"
    by (simp add: getenv_def unset_or_empty_def split: option.splits)
  show ?thesis
  proof (intro conjI impI)
    assume "unset_or_empty env ''AZURE_SEARCH_ENDPOINT'' \<or> unset_or_empty env ''AZURE_SEARCH_API_KEY''"
    then show "create_index_script name env isv w =
        (Some (ValueError ''Azure Search endpoint and key must be set in environment variables''),
         snd (configure_logging name ''index.log'' w)
           \<lparr>trace := trace w @ [Log name ERROR '' Missing Azure Search configuration in .env'']\<rparr>)"
      by (auto simp add: create_index_script_def configure_logging_eq t Let_def emit_def)
  next
    assume "unset_or_empty env ''AZURE_SEARCH_ENDPOINT'' \<or> unset_or_empty env ''AZURE_SEARCH_API_KEY''
        \<or> unset_or_empty env ''AZURE_SEARCH_INDEX'' \<or> unset_or_empty env ''AZURE_OPENAI_ENDPOINT''
        \<or> unset_or_empty env ''AZURE_OPENAI_API_KEY'' \<or> unset_or_empty env ''AZURE_OPENAI_EMBED_DEPLOYMENT''"
    then show "\<exists>msg logged.
         ingest_script name env gsv w =
           (Some (ValueError msg),
            snd (configure_logging name ''ingest.log'' w)\<lparr>trace := trace w @ [Log name ERROR logged]\<rparr>)"
      by (auto simp add: ingest_script_def configure_logging_eq t Let_def emit_def)
  next
    assume "unset_or_empty env ''AZURE_OPENAI_ENDPOINT'' \<or> unset_or_empty env ''AZURE_OPENAI_API_KEY''
        \<or> unset_or_empty env ''AZURE_SEARCH_ENDPOINT'' \<or> unset_or_empty env ''AZURE_SEARCH_API_KEY''
        \<or> unset_or_empty env ''AZURE_SEARCH_INDEX''"
    then show "\<exists>msg logged.
         query_script name env qsv submitted ss w =
           (Raised (ValueError msg), ss,
            snd (configure_logging name ''chat.log'' w)\<lparr>trace := trace w @ [Log name ERROR logged]\<rparr>)"
      by (auto simp add: query_script_def query_startup_def configure_logging_eq t Let_def emit_def)
  qed
qed

theorem missing_configuration_raises_witness:
  "unset_or_empty env_no_search_key ''AZURE_SEARCH_API_KEY''
   \<and> fst (create_index_script ''__main__'' env_no_search_key index_ok world0) =
       Some (ValueError ''Azure Search endpoint and key must be set in environment variables'')
   \<and> trace (snd (create_index_script ''__main__'' env_no_search_key index_ok world0)) =
       [Log ''__main__'' ERROR '' Missing Azure Search configuration in .env'']
   \<and> unset_or_empty env_empty_openai_endpoint ''AZURE_OPENAI_ENDPOINT''
   \<and> (\<exists>msg logged.
         fst (ingest_script ''__main__'' env_empty_openai_endpoint ingest_ok world0) = Some (ValueError msg)
         \<and> trace (snd (ingest_script ''__main__'' env_empty_openai_endpoint ingest_ok world0)) =
             [Log ''__main__'' ERROR logged])
   \<and> (\<exists>msg logged.
         fst (query_script ''__main__'' env_empty_openai_endpoint good_services (Some ''fees?'')
                \<lparr>ss_chat_history = None\<rparr> world0) = Raised (ValueError msg)
         \<and> trace (snd (snd (query_script ''__main__'' env_empty_openai_endpoint good_services (Some ''fees?'')
                \<lparr>ss_chat_history = None\<rparr> world0))) = [Log ''__main__'' ERROR logged])"
proof -
  have a: "unset_or_empty env_no_search_key ''AZURE_SEARCH_API_KEY''"
    by (simp add: unset_or_empty_def env_no_search_key_def)
  have b: "unset_or_empty env_empty_openai_endpoint ''AZURE_OPENAI_ENDPOINT''"
    by (simp add: unset_or_empty_def env_empty_openai_endpoint_def)
  have t: "trace world0 = []"
    by (simp add: world0_def)
  note index = missing_configuration_raises
    [of env_no_search_key "''__main__''" index_ok world0 ingest_ok good_services "Some ''fees?''"
        "\<lparr>ss_chat_history = None\<rparr>"]
  note rest = missing_configuration_raises
    [of env_empty_openai_endpoint "''__main__''" index_ok world0 ingest_ok good_services "Some ''fees?''"
        "\<lparr>ss_chat_history = None\<rparr>"]
  have 1: "create_index_script ''__main__'' env_no_search_key index_ok world0 =
        (Some (ValueError ''Azure Search endpoint and key must be set in environment variables''),
         snd (configure_logging ''__main__'' ''index.log'' world0)
           \<lparr>trace := trace world0 @ [Log ''__main__'' ERROR '' Missing Azure Search configuration in .env'']\<rparr>)"
    using index a by blast
  obtain msg logged where 2: "ingest_script ''__main__'' env_empty_openai_endpoint ingest_ok world0 =
           (Some (ValueError msg),
            snd (configure_logging ''__main__'' ''ingest.log'' world0)
              \<lparr>trace := trace world0 @ [Log ''__main__'' ERROR logged]\<rparr>)"
    using rest b by blast
  obtain msg' logged' where 3: "query_script ''__main__'' env_empty_openai_endpoint good_services
             (Some ''fees?'') \<lparr>ss_chat_history = None\<rparr> world0 =
           (Raised (ValueError msg'), \<lparr>ss_chat_history = None\<rparr>,
            snd (configure_logging ''__main__'' ''chat.log'' world0)
              \<lparr>trace := trace world0 @ [Log ''__main__'' ERROR logged']\<rparr>)"
    using rest b by blast
  show ?thesis
    using a b by (auto simp add: 1 2 3 t)
qed



section \<open>The failure policies\<close>




section \<open>The order of answering\<close>

text \<open>
  C4. When a user submits a query to the running page (configuration complete, both
  requests of the retrieval answered), the steps are taken in this order, once each:
  the query is embedded; the vector search is requested with that embedding and
  \<open>k = 10\<close>; the chunks of the results are joined with newlines into the context
  text; the chat-completion API is called once, with the history, the system
  instruction and the user message made of that context and the query; the script
  asks for a rerun; and only in that rerun are the query and the answer rendered,
  after the earlier history. Before the embedding, the run that handles the query has
  rendered the earlier history only.
\<close>

theorem answering_order:
  assumes "\<not> unset_or_empty env ''AZURE_OPENAI_ENDPOINT''"
    and "\<not> unset_or_empty env ''AZURE_OPENAI_API_KEY''"
    and "\<not> unset_or_empty env ''AZURE_SEARCH_ENDPOINT''"
    and "\<not> unset_or_empty env ''AZURE_SEARCH_API_KEY''"
    and "\<not> unset_or_empty env ''AZURE_SEARCH_INDEX''"
    and "prompt \<noteq> []"
    and "\<forall>h. ss_chat_history ss = Some h \<longrightarrow> h < length (heap w)"
    and "embed_model = getenv_default env ''AZURE_OPENAI_EMBED_DEPLOYMENT'' ''embed''"
    and "chat_model = getenv_default env ''AZURE_OPENAI_CHAT_DEPLOYMENT'' ''chat''"
    and "embeddings_create sv prompt embed_model = Inr (v # vs)"
    and "search sv []
           [\<lparr>vq_kind = ''vector'', vq_vector = v, vq_fields = ''embedding'', vq_k = 10\<rparr>]
           [''content'', ''metadata'', ''doc_id''] = (results, None)"
    and "history = (case ss_chat_history ss of None \<Rightarrow> [] | Some a \<Rightarrow> heap w ! a)"
    and "context_text =
           join ''\<newline>'' (map chunk_of (filter (\<lambda>r. truthy (dict_get r ''content'' PNone)) results))"
    and "messages = history @
           [\<lparr>role = ''system'', content = PStr system_instruction\<rparr>,
            \<lparr>role = ''user'',
             content = PStr (''Context:\<newline>'' @ context_text @ ''\<newline>\<newline>Question: '' @ prompt)\<rparr>]"
  shows "\<exists>answer.
           fst (submit name env sv prompt ss w) = Finished
           \<and> filter is_step (trace (snd (snd (submit name env sv prompt ss w)))) =
               filter is_step (trace w) @ rendering history @
                 [EmbeddingsCreate prompt embed_model,
                  Search []
                    [\<lparr>vq_kind = ''vector'', vq_vector = v, vq_fields = ''embedding'', vq_k = 10\<rparr>]
                    [''content'', ''metadata'', ''doc_id''],
                  ChatCompletionsCreate chat_model messages 0.2 1000,
                  Rerun]
                 @ rendering history @
                 [ChatMessage ''user'', Markdown (PStr prompt),
                  ChatMessage ''assistant'', Markdown answer]
           \<and> (\<forall>a rest. chat_completions_create sv chat_model messages 0.2 1000 = Inr (a # rest)
                  \<longrightarrow> answer = a)"
proof -
  from query_startup_configured [OF assms(1-5), of name w]
  obtain g w1 where
    s1: "query_startup name env w = (Inr g, w1)"
    and chat: "AZURE_OPENAI_CHAT_DEPLOYMENT g = chat_model"
    and embed: "AZURE_OPENAI_EMBED_DEPLOYMENT g = embed_model"
    and heap1: "heap w1 = heap w"
    and steps1: "filter is_step (trace w1) = filter is_step (trace w)"
    unfolding assms(8,9) by blast
  have valid1: "\<forall>h. ss_chat_history ss = Some h \<longrightarrow> h < length (heap w1)"
    using assms(7) by (simp add: heap1)
  have emb: "embeddings_create sv prompt (AZURE_OPENAI_EMBED_DEPLOYMENT g) = Inr (v # vs)"
    using assms(10) by (simp add: embed)
  have hist1: "history = (case ss_chat_history ss of None \<Rightarrow> [] | Some a \<Rightarrow> heap w1 ! a)"
    unfolding assms(12) heap1 by (rule refl)
  have msgs: "messages = history @
           [\<lparr>role = ''system'', content = PStr system_instruction\<rparr>,
            \<lparr>role = ''user'',
             content = PStr (''Context:\<newline>'' @
                             join ''\<newline>''
                               (map chunk_of (filter (\<lambda>r. truthy (dict_get r ''content'' PNone)) results)) @
                             ''\<newline>\<newline>Question: '' @ prompt)\<rparr>]"
    unfolding assms(14) assms(13) by (rule refl)
  from chat_page_submit [OF assms(6) valid1 emb assms(11) hist1 msgs]
  obtain answer h ss' w2 where
    page: "chat_page sv g (Some prompt) ss w1 = (RerunRequested, ss', w2)"
    and sess: "ss_chat_history ss' = Some h"
    and heap2: "heap w2 ! h = history @
               [\<lparr>role = ''user'', content = PStr prompt\<rparr>, \<lparr>role = ''assistant'', content = answer\<rparr>]"
    and steps2: "filter is_step (trace w2) =
               filter is_step (trace w1) @ rendering history @
                 [EmbeddingsCreate prompt (AZURE_OPENAI_EMBED_DEPLOYMENT g),
                  Search []
                    [\<lparr>vq_kind = ''vector'', vq_vector = v, vq_fields = ''embedding'', vq_k = 10\<rparr>]
                    [''content'', ''metadata'', ''doc_id''],
                  ChatCompletionsCreate (AZURE_OPENAI_CHAT_DEPLOYMENT g) messages 0.2 1000,
                  Rerun]"
    and ans: "\<forall>a rest. chat_completions_create sv (AZURE_OPENAI_CHAT_DEPLOYMENT g) messages 0.2 1000
                          = Inr (a # rest) \<longrightarrow> answer = a"
    by blast
  have run1: "query_script name env sv (Some prompt) ss w = (RerunRequested, ss', w2)"
    by (simp add: query_script_def s1 page)
  from query_startup_configured [OF assms(1-5), of name w2]
  obtain g' w3 where
    s2: "query_startup name env w2 = (Inr g', w3)"
    and heap3: "heap w3 = heap w2"
    and steps3: "filter is_step (trace w3) = filter is_step (trace w2)"
    by blast
  have run2: "submit name env sv prompt ss w = chat_page sv g' None ss' w3"
  proof -
    have "submit name env sv prompt ss w = query_script name env sv None ss' w2"
      by (simp add: submit_def run1)
    then show ?thesis
      by (simp add: query_script_def s2)
  qed
  have fin: "fst (submit name env sv prompt ss w) = Finished"
    unfolding run2 by (rule chat_page_idle(1) [OF sess])
  have steps: "filter is_step (trace (snd (snd (submit name env sv prompt ss w)))) =
               filter is_step (trace w) @ rendering history @
                 [EmbeddingsCreate prompt embed_model,
                  Search []
                    [\<lparr>vq_kind = ''vector'', vq_vector = v, vq_fields = ''embedding'', vq_k = 10\<rparr>]
                    [''content'', ''metadata'', ''doc_id''],
                  ChatCompletionsCreate chat_model messages 0.2 1000,
                  Rerun]
                 @ rendering history @
                 [ChatMessage ''user'', Markdown (PStr prompt),
                  ChatMessage ''assistant'', Markdown answer]"
    unfolding run2 chat_page_idle(2) [OF sess] steps3 steps2 steps1 heap3 heap2 chat embed
    by simp
  from fin steps ans show ?thesis
    unfolding chat by blast
qed

theorem answering_order_witness:
  "\<not> unset_or_empty env_full ''AZURE_OPENAI_ENDPOINT''
   \<and> \<not> unset_or_empty env_full ''AZURE_OPENAI_API_KEY''
   \<and> \<not> unset_or_empty env_full ''AZURE_SEARCH_ENDPOINT''
   \<and> \<not> unset_or_empty env_full ''AZURE_SEARCH_API_KEY''
   \<and> \<not> unset_or_empty env_full ''AZURE_SEARCH_INDEX''
   \<and> embeddings_create good_services ''fees?'' (PStr ''embed'') = Inr [[1, 0, 2]]
   \<and> search good_services []
        [\<lparr>vq_kind = ''vector'', vq_vector = [1, 0, 2], vq_fields = ''embedding'', vq_k = 10\<rparr>]
        [''content'', ''metadata'', ''doc_id''] = ([result1, result2, result3], None)
   \<and> fst (submit ''__main__'' env_full good_services ''fees?'' \<lparr>ss_chat_history = Some 0\<rparr> world1) = Finished
   \<and> filter is_step
        (trace (snd (snd (submit ''__main__'' env_full good_services ''fees?''
                            \<lparr>ss_chat_history = Some 0\<rparr> world1)))) =
       [ChatMessage ''user'', Markdown (PStr ''hi''),
        ChatMessage ''assistant'', Markdown (PStr ''Hello.''),
        EmbeddingsCreate ''fees?'' (PStr ''embed''),
        Search []
          [\<lparr>vq_kind = ''vector'', vq_vector = [1, 0, 2], vq_fields = ''embedding'', vq_k = 10\<rparr>]
          [''content'', ''metadata'', ''doc_id''],
        ChatCompletionsCreate (PStr ''chat'')
          [\<lparr>role = ''user'', content = PStr ''hi''\<rparr>,
           \<lparr>role = ''assistant'', content = PStr ''Hello.''\<rparr>,
           \<lparr>role = ''system'', content = PStr system_instruction\<rparr>,
           \<lparr>role = ''user'',
            content = PStr (''Context:\<newline>Fees are in section 4.\<newline>(Source: manual.pdf)\<newline>'' @
                            ''Accounts close after 90 days.\<newline>(Source: d3)'' @
                            ''\<newline>\<newline>Question: fees?'')\<rparr>]
          0.2 1000,
        Rerun,
        ChatMessage ''user'', Markdown (PStr ''hi''),
        ChatMessage ''assistant'', Markdown (PStr ''Hello.''),
        ChatMessage ''user'', Markdown (PStr ''fees?''),
        ChatMessage ''assistant'', Markdown (PStr ''See section 4.'')]"
proof -
  let ?history = "[\<lparr>role = ''user'', content = PStr ''hi''\<rparr>,
                   \<lparr>role = ''assistant'', content = PStr ''Hello.''\<rparr>]"
  let ?ctx = "''Fees are in section 4.\<newline>(Source: manual.pdf)\<newline>'' @
                  ''Accounts close after 90 days.\<newline>(Source: d3)''"
  let ?messages = "?history @
           [\<lparr>role = ''system'', content = PStr system_instruction\<rparr>,
            \<lparr>role = ''user'',
             content = PStr (''Context:\<newline>'' @ ?ctx @ ''\<newline>\<newline>Question: '' @ ''fees?'')\<rparr>]"
  have 1: "\<not> unset_or_empty env_full ''AZURE_OPENAI_ENDPOINT''"
    and 2: "\<not> unset_or_empty env_full ''AZURE_OPENAI_API_KEY''"
    and 3: "\<not> unset_or_empty env_full ''AZURE_SEARCH_ENDPOINT''"
    and 4: "\<not> unset_or_empty env_full ''AZURE_SEARCH_API_KEY''"
    and 5: "\<not> unset_or_empty env_full ''AZURE_SEARCH_INDEX''"
    by (simp_all add: unset_or_empty_def env_full_def)
  have 6: "''fees?'' \<noteq> []"
    by simp
  have 7: "\<forall>h. ss_chat_history \<lparr>ss_chat_history = Some 0\<rparr> = Some h \<longrightarrow> h < length (heap world1)"
    by (simp add: world1_def)
  have 8: "PStr ''embed'' = getenv_default env_full ''AZURE_OPENAI_EMBED_DEPLOYMENT'' ''embed''"
    and 9: "PStr ''chat'' = getenv_default env_full ''AZURE_OPENAI_CHAT_DEPLOYMENT'' ''chat''"
    by (simp_all add: getenv_default_def env_full_def)
  have 10: "embeddings_create good_services ''fees?'' (PStr ''embed'') = Inr ([1, 0, 2] # [])"
    by (simp add: good_services_def)
  have 11: "search good_services []
        [\<lparr>vq_kind = ''vector'', vq_vector = [1, 0, 2], vq_fields = ''embedding'', vq_k = 10\<rparr>]
        [''content'', ''metadata'', ''doc_id''] = ([result1, result2, result3], None)"
    by (simp add: good_services_def)
  have 12: "?history = (case ss_chat_history \<lparr>ss_chat_history = Some 0\<rparr> of
                          None \<Rightarrow> [] | Some a \<Rightarrow> heap world1 ! a)"
    by (simp add: world1_def)
  have 13: "?ctx = join ''\<newline>''
              (map chunk_of (filter (\<lambda>r. truthy (dict_get r ''content'' PNone)) [result1, result2, result3]))"
    by (simp add: chunk_of_def dict_get_def py_or_def result1_def result2_def result3_def)
  have 14: "?messages = ?history @
           [\<lparr>role = ''system'', content = PStr system_instruction\<rparr>,
            \<lparr>role = ''user'',
             content = PStr (''Context:\<newline>'' @ ?ctx @ ''\<newline>\<newline>Question: '' @ ''fees?'')\<rparr>]"
    by (rule refl)
  have reply: "chat_completions_create good_services (PStr ''chat'') ?messages 0.2 1000
                 = Inr (PStr ''See section 4.'' # [])"
    by (simp add: good_services_def)
  have t: "trace world1 = []"
    by (simp add: world1_def world0_def)
  from answering_order [OF 1 2 3 4 5 6 7 8 9 10 11 12 13 14, of "''__main__''"]
  obtain answer where
    fin: "fst (submit ''__main__'' env_full good_services ''fees?'' \<lparr>ss_chat_history = Some 0\<rparr> world1)
            = Finished"
    and steps: "filter is_step
        (trace (snd (snd (submit ''__main__'' env_full good_services ''fees?''
                            \<lparr>ss_chat_history = Some 0\<rparr> world1)))) =
        filter is_step (trace world1) @ rendering ?history @
          [EmbeddingsCreate ''fees?'' (PStr ''embed''),
           Search []
             [\<lparr>vq_kind = ''vector'', vq_vector = [1, 0, 2], vq_fields = ''embedding'', vq_k = 10\<rparr>]
             [''content'', ''metadata'', ''doc_id''],
           ChatCompletionsCreate (PStr ''chat'') ?messages 0.2 1000,
           Rerun]
          @ rendering ?history @
          [ChatMessage ''user'', Markdown (PStr ''fees?''),
           ChatMessage ''assistant'', Markdown answer]"
    and ans: "\<forall>a rest. chat_completions_create good_services (PStr ''chat'') ?messages 0.2 1000
                = Inr (a # rest) \<longrightarrow> answer = a"
    by blast
  have answer: "answer = PStr ''See section 4.''"
    using ans reply by blast
  show ?thesis
    using 1 2 3 4 5 10 11 fin by (simp add: steps answer t)
qed

end
